theory Spec2Isabelle
  imports Main
begin

section \<open>Python values and exceptions\<close>

text \<open>
  The program is one Streamlit script, \<^verbatim>\<open>crew_builder_croq_fancy.py\<close>. Its two
  coroutines, \<^verbatim>\<open>create_and_run_crew\<close> and \<^verbatim>\<open>handle_crew_creation\<close>, and the part of the
  script that collects the agent configurations are embedded below. Everything the script
  reaches outside itself (the agents SDK, the remote completion service behind
  \<^verbatim>\<open>Runner.run\<close>, the clock, the process environment, the Streamlit session) is either a
  parameter or a field of an explicit world state.
\<close>

text \<open>An agent configuration is the dict \<^verbatim>\<open>{"name": ..., "instructions": ...}\<close>.\<close>

type_synonym agent_config = "string \<rightharpoonup> string"

text \<open>
  Exceptions that can reach one of the two \<^verbatim>\<open>except Exception\<close> handlers: a missing dict
  key, a list index out of range, a value the process environment refuses, and whatever a
  library call raises (the last two carried with their message).
\<close>

datatype exn = KeyError string | IndexError | ValueError string | LibraryError string

text \<open>\<^verbatim>\<open>str(e)\<close>: a \<^verbatim>\<open>KeyError\<close> prints the repr of its key.\<close>

fun str_exn :: "exn \<Rightarrow> string" where
  "str_exn (KeyError k) = [CHR 0x27] @ k @ [CHR 0x27]"
| "str_exn IndexError = ''list index out of range''"
| "str_exn (ValueError msg) = msg"
| "str_exn (LibraryError msg) = msg"

text \<open>\<^verbatim>\<open>d[k]\<close> on a dict.\<close>

definition getitem :: "agent_config \<Rightarrow> string \<Rightarrow> exn + string" where
  "getitem d k = (case d k of None \<Rightarrow> Inl (KeyError k) | Some v \<Rightarrow> Inr v)"

text \<open>\<^verbatim>\<open>xs[i]\<close> on a list, for the non-negative indices \<^verbatim>\<open>enumerate\<close> yields.\<close>

definition list_getitem :: "'a list \<Rightarrow> nat \<Rightarrow> exn + 'a" where
  "list_getitem xs i = (if i < length xs then Inr (xs ! i) else Inl IndexError)"

text \<open>\<^verbatim>\<open>str(n)\<close> for a non-negative integer.\<close>

definition digit_char :: "nat \<Rightarrow> char" where
  "digit_char d = ''0123456789'' ! d"

fun str_nat :: "nat \<Rightarrow> string" where
  "str_nat n = (if n < 10 then [digit_char n] else str_nat (n div 10) @ [digit_char (n mod 10)])"

declare str_nat.simps [simp del]

text \<open>Truthiness of the credential argument: \<^verbatim>\<open>None\<close> and \<^verbatim>\<open>""\<close> are falsy.\<close>

fun truthy :: "string option \<Rightarrow> bool" where
  "truthy None = False"
| "truthy (Some s) = (s \<noteq> [])"

section \<open>External collaborators and the world\<close>

text \<open>The object \<^verbatim>\<open>Runner.run\<close> returns; the script reads only \<^verbatim>\<open>final_output\<close>.\<close>

record run_result =
  final_output :: string

text \<open>
  The library calls the script makes, as parameters. A constructor either raises or returns
  a handle. \<^verbatim>\<open>Runner.run\<close> talks to the remote service, whose state \<open>'s\<close> it may change
  whether it returns or raises. \<^verbatim>\<open>AsyncOpenAI\<close> reads the credential from the process
  environment, so it takes the environment. \<open>strftime_now k\<close> is the text of
  \<^verbatim>\<open>datetime.now().strftime("%Y-%m-%d %H:%M:%S")\<close> at the \<open>k\<close>-th reading of the clock.
\<close>

record ('m, 'ag, 'c, 's) externals =
  Agent :: "string \<Rightarrow> string \<Rightarrow> 'm \<Rightarrow> exn + 'ag"
  Runner_run :: "'s \<Rightarrow> 'ag \<Rightarrow> string \<Rightarrow> (exn + run_result) \<times> 's"
  AsyncOpenAI :: "(string \<rightharpoonup> string) \<Rightarrow> string \<Rightarrow> exn + 'c"
  OpenAIChatCompletionsModel :: "string \<Rightarrow> 'c \<Rightarrow> exn + 'm"
  strftime_now :: "nat \<Rightarrow> string"

text \<open>What Streamlit is asked to draw, in the order of the calls.\<close>

datatype ui_event =
    Error string
  | Spinner string
  | Markdown string
  | Tabs "string list"
  | Expander string
  | Write string
  | Dataframe "(string \<times> string \<times> string) list"

text \<open>
  The state outside an invocation: the remote service, the trace of the calls made to it
  (agent, prompt, outcome), the page, \<^verbatim>\<open>os.environ\<close>,
  \<^verbatim>\<open>st.session_state.download_content\<close> and the number of clock readings so far.
\<close>

record ('ag, 's) world =
  remote :: 's
  run_log :: "('ag \<times> string \<times> (exn + run_result)) list"
  screen :: "ui_event list"
  environ :: "string \<rightharpoonup> string"
  download_content :: "string option"
  clock_reads :: nat

definition st_emit :: "ui_event \<Rightarrow> ('ag, 's) world \<Rightarrow> ('ag, 's) world" where
  "st_emit ev w = w\<lparr>screen := screen w @ [ev]\<rparr>"

definition st_error :: "string \<Rightarrow> ('ag, 's) world \<Rightarrow> ('ag, 's) world" where
  "st_error msg w = st_emit (Error msg) w"

text \<open>\<^verbatim>\<open>await Runner.run(agent, prompt)\<close>: one round trip, recorded in the trace.\<close>

definition runner_run ::
  "('m, 'ag, 'c, 's) externals \<Rightarrow> 'ag \<Rightarrow> string \<Rightarrow> ('ag, 's) world
    \<Rightarrow> (exn + run_result) \<times> ('ag, 's) world" where
  "runner_run ext agent prompt w =
     (case Runner_run ext (remote w) agent prompt of
        (r, s') \<Rightarrow> (r, w\<lparr>remote := s', run_log := run_log w @ [(agent, prompt, r)]\<rparr>))"

text \<open>\<^verbatim>\<open>datetime.now().strftime(...)\<close>.\<close>

definition now_strftime ::
  "('m, 'ag, 'c, 's) externals \<Rightarrow> ('ag, 's) world \<Rightarrow> string \<times> ('ag, 's) world" where
  "now_strftime ext w = (strftime_now ext (clock_reads w), w\<lparr>clock_reads := Suc (clock_reads w)\<rparr>)"

section \<open>The dispatcher: \<^verbatim>\<open>create_and_run_crew\<close>\<close>

text \<open>
  The body of the \<^verbatim>\<open>try\<close> inside the loop (lines 101-110): build the agent from
  \<^verbatim>\<open>config["name"]\<close> and \<^verbatim>\<open>config["instructions"]\<close>, then run it on
  \<^verbatim>\<open>config["instructions"] + "\n\nAdditional Context: " + human_input\<close>. The first
  exception ends the body.
\<close>

definition run_config ::
  "('m, 'ag, 'c, 's) externals \<Rightarrow> string \<Rightarrow> 'm \<Rightarrow> agent_config \<Rightarrow> ('ag, 's) world
    \<Rightarrow> (exn + 'ag \<times> run_result) \<times> ('ag, 's) world" where
  "run_config ext human_input model config w =
     (case getitem config ''name'' of
        Inl e \<Rightarrow> (Inl e, w)
      | Inr name \<Rightarrow>
     (case getitem config ''instructions'' of
        Inl e \<Rightarrow> (Inl e, w)
      | Inr instructions \<Rightarrow>
     (case Agent ext name instructions model of
        Inl e \<Rightarrow> (Inl e, w)
      | Inr agent \<Rightarrow>
     (case getitem config ''instructions'' of
        Inl e \<Rightarrow> (Inl e, w)
      | Inr instructions' \<Rightarrow>
     (case runner_run ext agent
             (instructions' @ ''\<newline>\<newline>Additional Context: '' @ human_input) w of
        (Inl e, w') \<Rightarrow> (Inl e, w')
      | (Inr result, w') \<Rightarrow> (Inr (agent, result), w'))))))"

text \<open>
  The \<^verbatim>\<open>for config in agent_configs\<close> loop with its two accumulators. An exception in
  the body is reported with \<^verbatim>\<open>st.error\<close> and the function returns \<^verbatim>\<open>None, None\<close>
  (here \<open>None\<close>); after the last entry it returns \<^verbatim>\<open>agentlist, results\<close>.
\<close>

fun crew_loop ::
  "('m, 'ag, 'c, 's) externals \<Rightarrow> string \<Rightarrow> 'm \<Rightarrow> agent_config list
    \<Rightarrow> 'ag list \<Rightarrow> run_result list \<Rightarrow> ('ag, 's) world
    \<Rightarrow> ('ag list \<times> run_result list) option \<times> ('ag, 's) world" where
  "crew_loop ext human_input model [] agentlist results w = (Some (agentlist, results), w)"
| "crew_loop ext human_input model (config # rest) agentlist results w =
     (case run_config ext human_input model config w of
        (Inl e, w') \<Rightarrow> (None, st_error (''Error creating agent: '' @ str_exn e) w')
      | (Inr (agent, result), w') \<Rightarrow>
          crew_loop ext human_input model rest (agentlist @ [agent]) (results @ [result]) w')"

definition create_and_run_crew ::
  "('m, 'ag, 'c, 's) externals \<Rightarrow> agent_config list \<Rightarrow> string \<Rightarrow> 'm \<Rightarrow> ('ag, 's) world
    \<Rightarrow> ('ag list \<times> run_result list) option \<times> ('ag, 's) world" where
  "create_and_run_crew ext agent_configs human_input model w =
     crew_loop ext human_input model agent_configs [] [] w"

section \<open>The caller: \<^verbatim>\<open>handle_crew_creation\<close>\<close>

text \<open>\<^verbatim>\<open>agent_configs[i][k]\<close>.\<close>

definition config_field :: "agent_config list \<Rightarrow> nat \<Rightarrow> string \<Rightarrow> exn + string" where
  "config_field agent_configs i k =
     (case list_getitem agent_configs i of Inl e \<Rightarrow> Inl e | Inr config \<Rightarrow> getitem config k)"

definition results_heading :: string where
  \<open>results_heading = ''<h3 class="section-header">Results</h3>''\<close>

text \<open>
  Lines 38-44, the "Detailed Output" tab: one expander per result. The result is the
  exception that ended the loop, if any; what was drawn before it stays on the page.
\<close>

fun detailed_loop ::
  "agent_config list \<Rightarrow> (nat \<times> run_result) list \<Rightarrow> ('ag, 's) world
    \<Rightarrow> exn option \<times> ('ag, 's) world" where
  "detailed_loop agent_configs [] w = (None, w)"
| "detailed_loop agent_configs ((i, result) # rest) w =
     (case config_field agent_configs i ''name'' of
        Inl e \<Rightarrow> (Some e, w)
      | Inr name \<Rightarrow>
          (let w1 = st_emit (Expander (''Agent '' @ str_nat (i + 1) @ '': '' @ name)) w;
               w2 = st_emit (Markdown ''**Task:**'') w1
           in case config_field agent_configs i ''instructions'' of
                Inl e \<Rightarrow> (Some e, w2)
              | Inr instructions \<Rightarrow>
                  (let w3 = st_emit (Write instructions) w2;
                       w4 = st_emit (Markdown ''**Output:**'') w3;
                       w5 = st_emit (Write (final_output result)) w4
                   in detailed_loop agent_configs rest w5)))"

text \<open>Lines 48-54, the rows of the "Summary" table.\<close>

fun summary_loop ::
  "agent_config list \<Rightarrow> (nat \<times> run_result) list \<Rightarrow> (string \<times> string \<times> string) list
    \<Rightarrow> exn + (string \<times> string \<times> string) list" where
  "summary_loop agent_configs [] summary_data = Inr summary_data"
| "summary_loop agent_configs ((i, result) # rest) summary_data =
     (case config_field agent_configs i ''name'' of
        Inl e \<Rightarrow> Inl e
      | Inr name \<Rightarrow>
     (case config_field agent_configs i ''instructions'' of
        Inl e \<Rightarrow> Inl e
      | Inr instructions \<Rightarrow>
          summary_loop agent_configs rest
            (summary_data @
               [(str_nat (i + 1) @ '': '' @ name, instructions, final_output result)])))"

text \<open>Lines 32-56, the whole results display.\<close>

definition display_results ::
  "agent_config list \<Rightarrow> run_result list \<Rightarrow> ('ag, 's) world \<Rightarrow> exn option \<times> ('ag, 's) world" where
  "display_results agent_configs results w =
     (let w1 = st_emit (Markdown results_heading) w;
          w2 = st_emit (Tabs [''Detailed Output'', ''Summary'']) w1
      in case detailed_loop agent_configs (List.enumerate 0 results) w2 of
           (Some e, w3) \<Rightarrow> (Some e, w3)
         | (None, w3) \<Rightarrow>
             (case summary_loop agent_configs (List.enumerate 0 results) [] of
                Inl e \<Rightarrow> (Some e, w3)
              | Inr summary_data \<Rightarrow> (None, st_emit (Dataframe summary_data) w3)))"

text \<open>Lines 71-74: the configuration entries appended to \<^verbatim>\<open>combined_text\<close>.\<close>

fun config_entries_loop :: "(nat \<times> agent_config) list \<Rightarrow> string \<Rightarrow> exn + string" where
  "config_entries_loop [] combined_text = Inr combined_text"
| "config_entries_loop ((i, config) # rest) combined_text =
     (case getitem config ''name'' of
        Inl e \<Rightarrow> Inl e
      | Inr name \<Rightarrow>
          (let combined_text1 =
                 combined_text @ ''\<newline>Agent '' @ str_nat (i + 1) @ '': '' @ name @ ''\<newline>''
           in case getitem config ''instructions'' of
                Inl e \<Rightarrow> Inl e
              | Inr instructions \<Rightarrow>
                  (let combined_text2 =
                         combined_text1 @ ''Instructions:\<newline>'' @ instructions @ ''\<newline>'';
                       combined_text3 = combined_text2 @ replicate 50 (CHR ''-'') @ ''\<newline>''
                   in config_entries_loop rest combined_text3)))"

text \<open>Lines 84-87: the result entries appended to \<^verbatim>\<open>combined_text\<close>.\<close>

fun result_entries_loop ::
  "agent_config list \<Rightarrow> (nat \<times> run_result) list \<Rightarrow> string \<Rightarrow> exn + string" where
  "result_entries_loop agent_configs [] combined_text = Inr combined_text"
| "result_entries_loop agent_configs ((i, result) # rest) combined_text =
     (case config_field agent_configs i ''name'' of
        Inl e \<Rightarrow> Inl e
      | Inr name \<Rightarrow>
          (let combined_text1 =
                 combined_text @ ''\<newline>Agent '' @ str_nat (i + 1) @ '': '' @ name @ ''\<newline>'';
               combined_text2 =
                 combined_text1 @ ''Output:\<newline>'' @ final_output result @ ''\<newline>'';
               combined_text3 = combined_text2 @ replicate 50 (CHR ''-'') @ ''\<newline>''
           in result_entries_loop agent_configs rest combined_text3))"

text \<open>The two f-string blocks of lines 59-70 and 76-83.\<close>

definition part1_heading :: "string \<Rightarrow> string \<Rightarrow> string" where
  "part1_heading timestamp human_input =
     ''AUTONOMOUS CREW BUILDER - COMPLETE REPORT\<newline>'' @
     replicate 50 (CHR ''='') @ ''\<newline>'' @
     ''\<newline>'' @
     ''PART 1: CREW CONFIGURATION\<newline>'' @
     replicate 50 (CHR ''='') @ ''\<newline>'' @
     ''Timestamp: '' @ timestamp @ ''\<newline>'' @
     ''\<newline>'' @
     ''Additional Context:\<newline>'' @
     human_input @ ''\<newline>'' @
     ''\<newline>'' @
     ''Agent Configurations:\<newline>''"

definition part2_heading :: "string \<Rightarrow> string" where
  "part2_heading timestamp =
     ''\<newline>'' @
     replicate 50 (CHR ''='') @ ''\<newline>'' @
     ''PART 2: CREW RESULTS\<newline>'' @
     replicate 50 (CHR ''='') @ ''\<newline>'' @
     ''Timestamp: '' @ timestamp @ ''\<newline>'' @
     ''\<newline>'' @
     ''Results by Agent:\<newline>''"

text \<open>Lines 59-87: the report text, with the two clock readings where the source makes them.\<close>

definition build_report ::
  "('m, 'ag, 'c, 's) externals \<Rightarrow> agent_config list \<Rightarrow> string \<Rightarrow> run_result list
    \<Rightarrow> ('ag, 's) world \<Rightarrow> (exn + string) \<times> ('ag, 's) world" where
  "build_report ext agent_configs human_input results w =
     (case now_strftime ext w of
        (timestamp1, w1) \<Rightarrow>
     (case config_entries_loop (List.enumerate 0 agent_configs)
             (part1_heading timestamp1 human_input) of
        Inl e \<Rightarrow> (Inl e, w1)
      | Inr combined_text \<Rightarrow>
     (case now_strftime ext w1 of
        (timestamp2, w2) \<Rightarrow>
     (case result_entries_loop agent_configs (List.enumerate 0 results)
             (combined_text @ part2_heading timestamp2) of
        Inl e \<Rightarrow> (Inl e, w2)
      | Inr combined_text' \<Rightarrow> (Inr combined_text', w2)))))"

text \<open>
  The Python function returns \<^verbatim>\<open>None\<close> on every path. The model also says which of its
  four ways out was taken: the credential guard (line 15), the \<^verbatim>\<open>tasklist is None\<close>
  return (line 29), the \<^verbatim>\<open>except\<close> handler (lines 91-93), or the end of the \<^verbatim>\<open>try\<close>
  block after line 90.
\<close>

datatype exit = MissingCredential | DispatchFailed | Caught exn | Completed

text \<open>
  \<^verbatim>\<open>os.environ[k] = v\<close>. Strings are sequences of bytes here. The assignment raises
  \<^verbatim>\<open>ValueError\<close> when the name or the value contains a NUL byte, or when the name is empty
  or contains \<^verbatim>\<open>=\<close>, and then leaves the environment as it was; otherwise it sets the
  variable.
\<close>

definition environ_setitem ::
  "(string \<rightharpoonup> string) \<Rightarrow> string \<Rightarrow> string \<Rightarrow> exn + (string \<rightharpoonup> string)" where
  "environ_setitem env k v =
     (if CHR 0x00 \<in> set k \<or> CHR 0x00 \<in> set v then Inl (ValueError ''embedded null byte'')
      else if k = [] \<or> CHR ''='' \<in> set k
           then Inl (ValueError ''illegal environment variable name'')
      else Inr (env(k \<mapsto> v)))"

text \<open>
  Lines 18-90, the body of the \<^verbatim>\<open>try\<close>: \<open>Inl e\<close> when exception \<open>e\<close> leaves it,
  otherwise how it ended. Line 19 comes first and may itself raise.
\<close>

definition crew_creation_body ::
  "('m, 'ag, 'c, 's) externals \<Rightarrow> agent_config list \<Rightarrow> string \<Rightarrow> string \<Rightarrow> ('ag, 's) world
    \<Rightarrow> (exn + exit) \<times> ('ag, 's) world" where
  "crew_creation_body ext agent_configs human_input key w =
     (let w0 = st_emit (Spinner ''Creating and running your crew...'') w
      in case environ_setitem (environ w0) ''OPENAI_API_KEY'' key of
           Inl e \<Rightarrow> (Inl e, w0)
         | Inr environ' \<Rightarrow>
        (let w1 = w0\<lparr>environ := environ'\<rparr>
         in case AsyncOpenAI ext (environ w1) ''https://api.groq.com/openai/v1'' of
           Inl e \<Rightarrow> (Inl e, w1)
         | Inr client \<Rightarrow>
        (case OpenAIChatCompletionsModel ext ''llama-3.1-8b-instant'' client of
           Inl e \<Rightarrow> (Inl e, w1)
         | Inr model \<Rightarrow>
        (case create_and_run_crew ext agent_configs human_input model w1 of
           (None, w2) \<Rightarrow> (Inr DispatchFailed, w2)
         | (Some (tasklist, results), w2) \<Rightarrow>
        (case display_results agent_configs results w2 of
           (Some e, w3) \<Rightarrow> (Inl e, w3)
         | (None, w3) \<Rightarrow>
        (case build_report ext agent_configs human_input results w3 of
           (Inl e, w4) \<Rightarrow> (Inl e, w4)
         | (Inr combined_text, w4) \<Rightarrow>
             (Inr Completed, w4\<lparr>download_content := Some combined_text\<rparr>)))))))"

definition handle_crew_creation ::
  "('m, 'ag, 'c, 's) externals \<Rightarrow> agent_config list \<Rightarrow> string \<Rightarrow> string option
    \<Rightarrow> ('ag, 's) world \<Rightarrow> exit \<times> ('ag, 's) world" where
  "handle_crew_creation ext agent_configs human_input groq_api_key w =
     (if \<not> truthy groq_api_key
      then (MissingCredential, st_error ''Please enter your GROQ API key in the sidebar!'' w)
      else
        (case crew_creation_body ext agent_configs human_input
                (case groq_api_key of Some key \<Rightarrow> key | None \<Rightarrow> []) w of
           (Inl e, w') \<Rightarrow>
             (Caught e,
              st_error ''Please check your GROQ API key and try again.''
                (st_error (''An error occurred while creating the crew: '' @ str_exn e) w'))
         | (Inr ex, w') \<Rightarrow> (ex, w')))"

section \<open>The script: collecting the configurations\<close>

text \<open>
  What the user has entered on the page in this run of the script: the text widgets by key
  (by label where the call gives no key), the number widgets by label, and whether the
  "Create Crew" button was clicked.
\<close>

record session_input =
  text_widgets :: "string \<rightharpoonup> string"
  number_widgets :: "string \<rightharpoonup> int"
  button_clicked :: bool

text \<open>\<^verbatim>\<open>st.text_input\<close> and \<^verbatim>\<open>st.text_area\<close> return the empty string for an untouched widget.\<close>

definition st_text_input :: "session_input \<Rightarrow> string \<Rightarrow> string" where
  "st_text_input ss key = (case text_widgets ss key of None \<Rightarrow> [] | Some v \<Rightarrow> v)"

definition st_text_area :: "session_input \<Rightarrow> string \<Rightarrow> string" where
  "st_text_area ss key = (case text_widgets ss key of None \<Rightarrow> [] | Some v \<Rightarrow> v)"

text \<open>
  \<^verbatim>\<open>st.number_input(label, min_value, max_value, value)\<close>: the widget commits only numbers
  within its bounds; untouched, or after an entry outside them, it returns \<^verbatim>\<open>value\<close>.
\<close>

definition st_number_input :: "session_input \<Rightarrow> string \<Rightarrow> int \<Rightarrow> int \<Rightarrow> int \<Rightarrow> int" where
  "st_number_input ss label min_value max_value val =
     (case number_widgets ss label of
        None \<Rightarrow> val
      | Some v \<Rightarrow> if min_value \<le> v \<and> v \<le> max_value then v else val)"

text \<open>Lines 201-215: the loop over \<^verbatim>\<open>range(number_of_agents)\<close> appending one dict per agent.\<close>

fun collect_loop :: "session_input \<Rightarrow> nat list \<Rightarrow> agent_config list \<Rightarrow> agent_config list" where
  "collect_loop ss [] agent_configs = agent_configs"
| "collect_loop ss (i # rest) agent_configs =
     (let agent_name = st_text_input ss (''name_'' @ str_nat i);
          instructions = st_text_area ss (''instructions_'' @ str_nat i)
      in collect_loop ss rest
           (agent_configs @ [[''name'' \<mapsto> agent_name, ''instructions'' \<mapsto> instructions]]))"

text \<open>Lines 156, 184-188 and 192-215: the three values the script passes on.\<close>

definition collector :: "session_input \<Rightarrow> agent_config list \<times> string \<times> string" where
  "collector ss =
     (let groq_api_key = st_text_input ss ''Enter your GROQ API key'';
          human_input = st_text_area ss ''User Input'';
          number_of_agents = st_number_input ss ''Number of Agents'' 1 10 1;
          agent_configs = collect_loop ss [0..<nat number_of_agents] []
      in (agent_configs, human_input, groq_api_key))"

text \<open>Lines 218-219: the only call of \<^verbatim>\<open>handle_crew_creation\<close>.\<close>

definition script ::
  "('m, 'ag, 'c, 's) externals \<Rightarrow> session_input \<Rightarrow> ('ag, 's) world \<Rightarrow> ('ag, 's) world" where
  "script ext ss w =
     (case collector ss of
        (agent_configs, human_input, groq_api_key) \<Rightarrow>
          if button_clicked ss
          then snd (handle_crew_creation ext agent_configs human_input (Some groq_api_key) w)
          else w)"

section \<open>Test fixtures\<close>

text \<open>
  A stub for the library: construction always succeeds, and the remote service echoes the
  prompt, except that its \<open>k\<close>-th call (counted from 0 in the service's state) raises when
  \<open>fail_at = Some k\<close>.
\<close>

definition stub :: "nat option \<Rightarrow> (string, string \<times> string, string, nat) externals" where
  "stub fail_at =
     \<lparr>Agent = (\<lambda>name instructions model. Inr (name, instructions)),
      Runner_run = (\<lambda>s agent prompt.
        (if fail_at = Some s then Inl (LibraryError ''service unavailable'')
         else Inr \<lparr>final_output = prompt\<rparr>, Suc s)),
      AsyncOpenAI = (\<lambda>env base_url. Inr base_url),
      OpenAIChatCompletionsModel = (\<lambda>model client. Inr model),
      strftime_now = (\<lambda>k. ''2025-01-01 00:00:0'' @ str_nat k)\<rparr>"

definition echo_stub :: "(string, string \<times> string, string, nat) externals" where
  "echo_stub = stub None"

text \<open>A fresh session: nothing drawn, nothing stored (lines 9-10), no call made yet.\<close>

definition world0 :: "(string \<times> string, nat) world" where
  "world0 = \<lparr>remote = 0, run_log = [], screen = [], environ = Map.empty,
             download_content = None, clock_reads = 0\<rparr>"

definition researcher :: agent_config where
  "researcher = [''name'' \<mapsto> ''Researcher'', ''instructions'' \<mapsto> ''Summarize X'']"

definition writer :: agent_config where
  "writer = [''name'' \<mapsto> ''Writer'', ''instructions'' \<mapsto> ''Draft Y'']"

text \<open>
  A page on which two agents were asked for and only the first was filled in.
\<close>

definition demo_session :: session_input where
  "demo_session =
     \<lparr>text_widgets = [''Enter your GROQ API key'' \<mapsto> ''gsk_secret'',
                      ''User Input'' \<mapsto> ''focus on Q3'',
                      ''name_0'' \<mapsto> ''Researcher'',
                      ''instructions_0'' \<mapsto> ''Summarize X''],
      number_widgets = [''Number of Agents'' \<mapsto> 2],
      button_clicked = True\<rparr>"

section \<open>Facts about the dispatch loop\<close>

lemma run_config_Inr:
  assumes "run_config ext hi m c w = (Inr (a, r), w')"
  shows "\<exists>n ins s'. c ''name'' = Some n \<and> c ''instructions'' = Some ins \<and>
           Agent ext n ins m = Inr a \<and>
           Runner_run ext (remote w) a (ins @ ''\<newline>\<newline>Additional Context: '' @ hi) = (Inr r, s') \<and>
           w' = w\<lparr>remote := s',
                  run_log := run_log w @ [(a, ins @ ''\<newline>\<newline>Additional Context: '' @ hi, Inr r)]\<rparr>"
  using assms
  by (auto simp: run_config_def getitem_def runner_run_def
           split: option.splits sum.splits prod.splits)

lemma run_config_Inl:
  assumes "run_config ext hi m c w = (Inl e, w')"
  shows "w' = w \<or>
         (\<exists>n ins a s'. c ''name'' = Some n \<and> c ''instructions'' = Some ins \<and>
            Agent ext n ins m = Inr a \<and>
            Runner_run ext (remote w) a (ins @ ''\<newline>\<newline>Additional Context: '' @ hi) = (Inl e, s') \<and>
            w' = w\<lparr>remote := s',
                   run_log := run_log w @ [(a, ins @ ''\<newline>\<newline>Additional Context: '' @ hi, Inl e)]\<rparr>)"
  using assms
  by (auto simp: run_config_def getitem_def runner_run_def
           split: option.splits sum.splits prod.splits)

lemma crew_loop_Some:
  assumes "crew_loop ext hi m cfgs agents results w = (Some (agents', results'), w')"
  shows "\<exists>as2 rs2 log2.
           agents' = agents @ as2 \<and> results' = results @ rs2 \<and>
           run_log w' = run_log w @ log2 \<and>
           length as2 = length cfgs \<and> length rs2 = length cfgs \<and> length log2 = length cfgs \<and>
           (\<forall>i<length cfgs. \<exists>n ins.
              (cfgs ! i) ''name'' = Some n \<and> (cfgs ! i) ''instructions'' = Some ins \<and>
              Agent ext n ins m = Inr (as2 ! i) \<and>
              log2 ! i = (as2 ! i, ins @ ''\<newline>\<newline>Additional Context: '' @ hi, Inr (rs2 ! i)))"
  using assms
proof (induction cfgs arbitrary: agents results w)
  case Nil
  then show ?case by simp
next
  case (Cons c rest)
  from Cons.prems obtain a r w1 where
    step: "run_config ext hi m c w = (Inr (a, r), w1)" and
    tail: "crew_loop ext hi m rest (agents @ [a]) (results @ [r]) w1 = (Some (agents', results'), w')"
    by (auto split: prod.splits sum.splits)
  from run_config_Inr [OF step] obtain n ins where
    c: "c ''name'' = Some n" "c ''instructions'' = Some ins" "Agent ext n ins m = Inr a" and
    log1: "run_log w1 = run_log w @ [(a, ins @ ''\<newline>\<newline>Additional Context: '' @ hi, Inr r)]"
    by auto
  from Cons.IH [OF tail] obtain as3 rs3 log3 where
    eqs: "agents' = (agents @ [a]) @ as3" "results' = (results @ [r]) @ rs3"
         "run_log w' = run_log w1 @ log3" and
    lens: "length as3 = length rest" "length rs3 = length rest" "length log3 = length rest" and
    each: "\<forall>i<length rest. \<exists>n ins.
              (rest ! i) ''name'' = Some n \<and> (rest ! i) ''instructions'' = Some ins \<and>
              Agent ext n ins m = Inr (as3 ! i) \<and>
              log3 ! i = (as3 ! i, ins @ ''\<newline>\<newline>Additional Context: '' @ hi, Inr (rs3 ! i))"
    by blast
  let ?entry = "(a, ins @ ''\<newline>\<newline>Additional Context: '' @ hi, Inr r)"
  have all: "\<forall>i<length (c # rest). \<exists>n ins.
              ((c # rest) ! i) ''name'' = Some n \<and> ((c # rest) ! i) ''instructions'' = Some ins \<and>
              Agent ext n ins m = Inr ((a # as3) ! i) \<and>
              (?entry # log3) ! i =
                ((a # as3) ! i, ins @ ''\<newline>\<newline>Additional Context: '' @ hi, Inr ((r # rs3) ! i))"
  proof (intro allI impI)
    fix i assume "i < length (c # rest)"
    then show "\<exists>n ins.
              ((c # rest) ! i) ''name'' = Some n \<and> ((c # rest) ! i) ''instructions'' = Some ins \<and>
              Agent ext n ins m = Inr ((a # as3) ! i) \<and>
              (?entry # log3) ! i =
                ((a # as3) ! i, ins @ ''\<newline>\<newline>Additional Context: '' @ hi, Inr ((r # rs3) ! i))"
      using c each by (cases i) auto
  qed
  show ?case
    apply (rule exI [of _ "a # as3"], rule exI [of _ "r # rs3"], rule exI [of _ "?entry # log3"])
    using eqs lens log1 all by simp
qed

lemma crew_loop_append:
  "crew_loop ext hi m (xs @ ys) agents results w =
     (case crew_loop ext hi m xs agents results w of
        (None, w') \<Rightarrow> (None, w')
      | (Some (agents', results'), w') \<Rightarrow> crew_loop ext hi m ys agents' results' w')"
  by (induction xs arbitrary: agents results w) (auto split: prod.splits sum.splits)

lemma run_config_frame:
  assumes "run_config ext hi m c w = (x, w')"
  shows "screen w' = screen w \<and> environ w' = environ w \<and>
         download_content w' = download_content w \<and> clock_reads w' = clock_reads w"
  using assms
  by (auto simp: run_config_def runner_run_def split: sum.splits prod.splits)

lemma crew_loop_frame:
  assumes "crew_loop ext hi m cfgs agents results w = (x, w')"
  shows "environ w' = environ w \<and> download_content w' = download_content w \<and>
         clock_reads w' = clock_reads w"
  using assms
proof (induction cfgs arbitrary: agents results w)
  case Nil
  then show ?case by simp
next
  case (Cons c rest)
  obtain y w1 where step: "run_config ext hi m c w = (y, w1)"
    by (cases "run_config ext hi m c w")
  note fr = run_config_frame [OF step]
  show ?case
  proof (cases y)
    case (Inl e)
    with Cons.prems step fr show ?thesis
      by (auto simp: st_error_def st_emit_def)
  next
    case (Inr ar)
    with Cons.prems step obtain a r where
      "crew_loop ext hi m rest (agents @ [a]) (results @ [r]) w1 = (x, w')"
      by (cases ar) auto
    from Cons.IH [OF this] fr show ?thesis by simp
  qed
qed

lemma runner_run_deterministic:
  assumes "\<forall>s a p. fst (Runner_run ext s a p) = f a p"
  shows "fst (runner_run ext a p w) = f a p"
proof -
  obtain r s' where call: "Runner_run ext (remote w) a p = (r, s')"
    by (cases "Runner_run ext (remote w) a p")
  with assms have "r = f a p"
    by (metis fst_conv)
  with call show ?thesis
    by (simp add: runner_run_def)
qed

lemma run_config_deterministic:
  assumes "\<forall>s a p. fst (Runner_run ext s a p) = f a p"
  shows "fst (run_config ext hi m c w) = fst (run_config ext hi m c w2)"
proof -
  have call: "fst (case runner_run ext a p v of
                     (Inl e, w') \<Rightarrow> (Inl e, w')
                   | (Inr result, w') \<Rightarrow> (Inr (a, result), w')) =
              (case f a p of Inl e \<Rightarrow> Inl e | Inr result \<Rightarrow> Inr (a, result))" for a p v
  proof -
    obtain r v' where rr: "runner_run ext a p v = (r, v')"
      by (cases "runner_run ext a p v")
    with runner_run_deterministic [OF assms, of a p v] have "r = f a p"
      by simp
    with rr show ?thesis
      by (simp split: sum.splits)
  qed
  have "fst (run_config ext hi m c v) =
          (case getitem c ''name'' of
             Inl e \<Rightarrow> Inl e
           | Inr name \<Rightarrow>
          (case getitem c ''instructions'' of
             Inl e \<Rightarrow> Inl e
           | Inr instructions \<Rightarrow>
          (case Agent ext name instructions m of
             Inl e \<Rightarrow> Inl e
           | Inr agent \<Rightarrow>
          (case f agent (instructions @ ''\<newline>\<newline>Additional Context: '' @ hi) of
             Inl e \<Rightarrow> Inl e
           | Inr result \<Rightarrow> Inr (agent, result)))))" for v
    by (simp add: run_config_def call split: sum.splits)
  then show ?thesis
    by simp
qed

lemma crew_loop_deterministic:
  assumes "\<forall>s a p. fst (Runner_run ext s a p) = f a p"
  shows "fst (crew_loop ext hi m cfgs agents results w) =
         fst (crew_loop ext hi m cfgs agents results w2)"
proof (induction cfgs arbitrary: agents results w w2)
  case Nil
  show ?case by simp
next
  case (Cons c rest)
  obtain y w1 where s1: "run_config ext hi m c w = (y, w1)"
    by (cases "run_config ext hi m c w")
  obtain y2 w3 where s2: "run_config ext hi m c w2 = (y2, w3)"
    by (cases "run_config ext hi m c w2")
  from run_config_deterministic [OF assms, of hi m c w w2] s1 s2 have same: "y2 = y"
    by simp
  show ?case
  proof (cases y)
    case (Inl e)
    with s1 s2 same show ?thesis by simp
  next
    case (Inr ar)
    obtain a r where ar: "ar = (a, r)" by (cases ar)
    from Cons.IH [of "agents @ [a]" "results @ [r]" w1 w3] Inr ar s1 s2 same
    show ?thesis by simp
  qed
qed

lemma crew_loop_prompts:
  assumes "crew_loop ext hi m cfgs agents results w = (x, w')"
  shows "\<exists>log2. run_log w' = run_log w @ log2 \<and> length log2 \<le> length cfgs \<and>
           (\<forall>j<length log2. \<exists>ins. (cfgs ! j) ''instructions'' = Some ins \<and>
              fst (snd (log2 ! j)) = ins @ ''\<newline>\<newline>Additional Context: '' @ hi)"
  using assms
proof (induction cfgs arbitrary: agents results w)
  case Nil
  then show ?case by simp
next
  case (Cons c rest)
  obtain y w1 where step: "run_config ext hi m c w = (y, w1)"
    by (cases "run_config ext hi m c w")
  show ?case
  proof (cases y)
    case (Inl e)
    with Cons.prems step have w': "w' = st_error (''Error creating agent: '' @ str_exn e) w1"
      by simp
    from run_config_Inl [of ext hi m c w e w1] step Inl
    consider "w1 = w"
      | ins a where "c ''instructions'' = Some ins"
          "run_log w1 = run_log w @ [(a, ins @ ''\<newline>\<newline>Additional Context: '' @ hi, Inl e)]"
      by auto
    then show ?thesis
    proof cases
      case 1
      with w' show ?thesis by (simp add: st_error_def st_emit_def)
    next
      case 2
      show ?thesis
        apply (rule exI [of _ "[(a, ins @ ''\<newline>\<newline>Additional Context: '' @ hi, Inl e)]"])
        using 2 w' by (simp add: st_error_def st_emit_def)
    qed
  next
    case (Inr ar)
    obtain a r where ar: "ar = (a, r)" by (cases ar)
    with Inr step have step': "run_config ext hi m c w = (Inr (a, r), w1)" by simp
    with Cons.prems have
      tail: "crew_loop ext hi m rest (agents @ [a]) (results @ [r]) w1 = (x, w')"
      by simp
    from run_config_Inr [OF step'] obtain ins where
      ins: "c ''instructions'' = Some ins" and
      log1: "run_log w1 = run_log w @ [(a, ins @ ''\<newline>\<newline>Additional Context: '' @ hi, Inr r)]"
      by auto
    from Cons.IH [OF tail] obtain log3 where
      log3: "run_log w' = run_log w1 @ log3" "length log3 \<le> length rest" and
      each: "\<forall>j<length log3. \<exists>ins. (rest ! j) ''instructions'' = Some ins \<and>
              fst (snd (log3 ! j)) = ins @ ''\<newline>\<newline>Additional Context: '' @ hi"
      by blast
    let ?entry = "(a, ins @ ''\<newline>\<newline>Additional Context: '' @ hi, Inr r :: exn + run_result)"
    have "\<forall>j<length (?entry # log3). \<exists>ins. ((c # rest) ! j) ''instructions'' = Some ins \<and>
              fst (snd ((?entry # log3) ! j)) = ins @ ''\<newline>\<newline>Additional Context: '' @ hi"
    proof (intro allI impI)
      fix j assume "j < length (?entry # log3)"
      then show "\<exists>ins. ((c # rest) ! j) ''instructions'' = Some ins \<and>
              fst (snd ((?entry # log3) ! j)) = ins @ ''\<newline>\<newline>Additional Context: '' @ hi"
        using ins each by (cases j) auto
    qed
    then show ?thesis
      apply -
      apply (rule exI [of _ "?entry # log3"])
      using log3 log1 by simp
  qed
qed

lemma crew_loop_Some_screen:
  assumes "crew_loop ext hi m cfgs agents results w = (Some ar, w')"
  shows "screen w' = screen w"
  using assms
proof (induction cfgs arbitrary: agents results w)
  case Nil
  then show ?case by simp
next
  case (Cons c rest)
  from Cons.prems obtain a r w1 where
    step: "run_config ext hi m c w = (Inr (a, r), w1)" and
    tail: "crew_loop ext hi m rest (agents @ [a]) (results @ [r]) w1 = (Some ar, w')"
    by (auto split: prod.splits sum.splits)
  from Cons.IH [OF tail] run_config_frame [OF step] show ?case by simp
qed

lemmas dispatch_eval =
  create_and_run_crew_def run_config_def getitem_def runner_run_def st_error_def st_emit_def
  echo_stub_def stub_def world0_def researcher_def writer_def

section \<open>The dispatcher's results\<close>

text \<open>
  C1. A successful run of \<^verbatim>\<open>create_and_run_crew\<close> over \<open>N\<close> configurations returns \<open>N\<close>
  results (and \<open>N\<close> agents) in input order: exactly \<open>N\<close> remote calls were added to the
  trace, and the \<open>i\<close>-th of them was made with the agent built from the name and
  instructions of configuration \<open>i\<close>, on that configuration's prompt, and returned the
  \<open>i\<close>-th result. This holds for every \<open>N\<close>, so for \<open>1 \<le> N \<le> 10\<close>.
\<close>

theorem create_and_run_crew_results_aligned:
  assumes "create_and_run_crew ext cfgs hi m w = (Some (agentlist, results), w')"
  shows "length results = length cfgs \<and> length agentlist = length cfgs \<and>
         length (run_log w') = length (run_log w) + length cfgs \<and>
         take (length (run_log w)) (run_log w') = run_log w \<and>
         (\<forall>i<length cfgs. \<exists>n ins.
            (cfgs ! i) ''name'' = Some n \<and> (cfgs ! i) ''instructions'' = Some ins \<and>
            Agent ext n ins m = Inr (agentlist ! i) \<and>
            run_log w' ! (length (run_log w) + i) =
              (agentlist ! i, ins @ ''\<newline>\<newline>Additional Context: '' @ hi, Inr (results ! i)))"
proof -
  from assms have "crew_loop ext hi m cfgs [] [] w = (Some (agentlist, results), w')"
    by (simp add: create_and_run_crew_def)
  from crew_loop_Some [OF this] obtain log2 where
    log: "run_log w' = run_log w @ log2" and
    lens: "length agentlist = length cfgs" "length results = length cfgs"
          "length log2 = length cfgs" and
    each: "\<forall>i<length cfgs. \<exists>n ins.
              (cfgs ! i) ''name'' = Some n \<and> (cfgs ! i) ''instructions'' = Some ins \<and>
              Agent ext n ins m = Inr (agentlist ! i) \<and>
              log2 ! i = (agentlist ! i, ins @ ''\<newline>\<newline>Additional Context: '' @ hi, Inr (results ! i))"
    by auto
  from log lens each show ?thesis by simp
qed

theorem create_and_run_crew_results_aligned_witness:
  "create_and_run_crew echo_stub [researcher, writer] ''focus on Q3'' ''llama-3.1-8b-instant'' world0 =
     (Some ([(''Researcher'', ''Summarize X''), (''Writer'', ''Draft Y'')],
            [\<lparr>final_output = ''Summarize X\<newline>\<newline>Additional Context: focus on Q3''\<rparr>,
             \<lparr>final_output = ''Draft Y\<newline>\<newline>Additional Context: focus on Q3''\<rparr>]),
      snd (create_and_run_crew echo_stub [researcher, writer] ''focus on Q3''
             ''llama-3.1-8b-instant'' world0)) \<and>
   length (run_log (snd (create_and_run_crew echo_stub [researcher, writer] ''focus on Q3''
             ''llama-3.1-8b-instant'' world0))) = length (run_log world0) + 2"
proof -
  let ?w' = "snd (create_and_run_crew echo_stub [researcher, writer] ''focus on Q3''
                    ''llama-3.1-8b-instant'' world0)"
  have run: "create_and_run_crew echo_stub [researcher, writer] ''focus on Q3''
               ''llama-3.1-8b-instant'' world0 =
     (Some ([(''Researcher'', ''Summarize X''), (''Writer'', ''Draft Y'')],
            [\<lparr>final_output = ''Summarize X\<newline>\<newline>Additional Context: focus on Q3''\<rparr>,
             \<lparr>final_output = ''Draft Y\<newline>\<newline>Additional Context: focus on Q3''\<rparr>]), ?w')"
    by (simp add: dispatch_eval)
  from create_and_run_crew_results_aligned [OF run] run show ?thesis
    by simp
qed

text \<open>
  C2. Let the entries before index \<open>k\<close> have been dispatched successfully (leaving the world
  \<open>w1\<close>), and let either the construction of the agent for entry \<open>k\<close> or its remote call
  raise \<open>e\<close>. Then the dispatcher returns no result list (\<^verbatim>\<open>None, None\<close>), the results
  gathered so far are in no part of what it returns or leaves behind, the failure is
  reported once with \<^verbatim>\<open>st.error\<close>, and the trace stops there: the \<open>k\<close> earlier calls, plus
  the raising call itself when it was the remote call that raised, and nothing for the
  entries after \<open>k\<close>.
\<close>

theorem create_and_run_crew_aborts_on_raise:
  assumes "k < length cfgs"
    and "create_and_run_crew ext (take k cfgs) hi m w = (Some (agents, results), w1)"
    and "(cfgs ! k) ''name'' = Some n"
    and "(cfgs ! k) ''instructions'' = Some ins"
    and "Agent ext n ins m = Inl e \<or>
         (\<exists>a s'. Agent ext n ins m = Inr a \<and>
            Runner_run ext (remote w1) a (ins @ ''\<newline>\<newline>Additional Context: '' @ hi) = (Inl e, s'))"
  shows "fst (create_and_run_crew ext cfgs hi m w) = None \<and>
         screen (snd (create_and_run_crew ext cfgs hi m w)) =
           screen w @ [Error (''Error creating agent: '' @ str_exn e)] \<and>
         length (run_log w1) = length (run_log w) + k \<and>
         (Agent ext n ins m = Inl e \<longrightarrow>
            run_log (snd (create_and_run_crew ext cfgs hi m w)) = run_log w1) \<and>
         (\<forall>a. Agent ext n ins m = Inr a \<longrightarrow>
            run_log (snd (create_and_run_crew ext cfgs hi m w)) =
              run_log w1 @ [(a, ins @ ''\<newline>\<newline>Additional Context: '' @ hi, Inl e)])"
proof -
  define pre where "pre = take k cfgs"
  define c where "c = cfgs ! k"
  define rest where "rest = drop (Suc k) cfgs"
  have cfgs: "cfgs = pre @ c # rest"
    unfolding pre_def c_def rest_def using assms(1) by (rule id_take_nth_drop)
  have k: "length pre = k"
    using assms(1) by (simp add: pre_def)
  from assms(2) have pre: "crew_loop ext hi m pre [] [] w = (Some (agents, results), w1)"
    by (simp add: create_and_run_crew_def pre_def)
  from crew_loop_Some [OF pre] k have len: "length (run_log w1) = length (run_log w) + k"
    by auto
  from crew_loop_Some_screen [OF pre] have scr: "screen w1 = screen w" .
  have whole: "create_and_run_crew ext cfgs hi m w = crew_loop ext hi m (c # rest) agents results w1"
    by (simp add: create_and_run_crew_def cfgs crew_loop_append pre)
  from assms(3,4) have keys: "c ''name'' = Some n" "c ''instructions'' = Some ins"
    by (simp_all add: c_def)
  from assms(5) show ?thesis
  proof
    assume raise: "Agent ext n ins m = Inl e"
    with keys have "run_config ext hi m c w1 = (Inl e, w1)"
      by (simp add: run_config_def getitem_def)
    with whole raise len scr show ?thesis
      by (simp add: st_error_def st_emit_def)
  next
    assume "\<exists>a s'. Agent ext n ins m = Inr a \<and>
      Runner_run ext (remote w1) a (ins @ ''\<newline>\<newline>Additional Context: '' @ hi) = (Inl e, s')"
    then obtain a s' where
      ok: "Agent ext n ins m = Inr a" and
      raise: "Runner_run ext (remote w1) a (ins @ ''\<newline>\<newline>Additional Context: '' @ hi) = (Inl e, s')"
      by blast
    with keys have "run_config ext hi m c w1 =
        (Inl e, w1\<lparr>remote := s',
            run_log := run_log w1 @ [(a, ins @ ''\<newline>\<newline>Additional Context: '' @ hi, Inl e)]\<rparr>)"
      by (simp add: run_config_def getitem_def runner_run_def)
    with whole ok len scr show ?thesis
      by (simp add: st_error_def st_emit_def)
  qed
qed

theorem create_and_run_crew_aborts_on_raise_witness:
  "1 < length [researcher, writer, researcher] \<and>
   fst (create_and_run_crew (stub (Some 1)) (take 1 [researcher, writer, researcher])
          ''focus on Q3'' ''llama-3.1-8b-instant'' world0) =
     Some ([(''Researcher'', ''Summarize X'')],
           [\<lparr>final_output = ''Summarize X\<newline>\<newline>Additional Context: focus on Q3''\<rparr>]) \<and>
   fst (create_and_run_crew (stub (Some 1)) [researcher, writer, researcher]
          ''focus on Q3'' ''llama-3.1-8b-instant'' world0) = None \<and>
   screen (snd (create_and_run_crew (stub (Some 1)) [researcher, writer, researcher]
          ''focus on Q3'' ''llama-3.1-8b-instant'' world0)) =
     [Error ''Error creating agent: service unavailable''] \<and>
   run_log (snd (create_and_run_crew (stub (Some 1)) [researcher, writer, researcher]
          ''focus on Q3'' ''llama-3.1-8b-instant'' world0)) =
     [((''Researcher'', ''Summarize X''),
       ''Summarize X\<newline>\<newline>Additional Context: focus on Q3'',
       Inr \<lparr>final_output = ''Summarize X\<newline>\<newline>Additional Context: focus on Q3''\<rparr>),
      ((''Writer'', ''Draft Y''),
       ''Draft Y\<newline>\<newline>Additional Context: focus on Q3'',
       Inl (LibraryError ''service unavailable''))]"
proof -
  let ?cfgs = "[researcher, writer, researcher]"
  let ?w1 = "snd (create_and_run_crew (stub (Some 1)) (take 1 ?cfgs)
                    ''focus on Q3'' ''llama-3.1-8b-instant'' world0)"
  have h1: "1 < length ?cfgs" by simp
  have h2: "create_and_run_crew (stub (Some 1)) (take 1 ?cfgs)
              ''focus on Q3'' ''llama-3.1-8b-instant'' world0 =
            (Some ([(''Researcher'', ''Summarize X'')],
                   [\<lparr>final_output = ''Summarize X\<newline>\<newline>Additional Context: focus on Q3''\<rparr>]), ?w1)"
    by (simp add: dispatch_eval)
  have h3: "(?cfgs ! 1) ''name'' = Some ''Writer''"
    by (simp add: writer_def)
  have h4: "(?cfgs ! 1) ''instructions'' = Some ''Draft Y''"
    by (simp add: writer_def)
  have h5: "Agent (stub (Some 1)) ''Writer'' ''Draft Y'' ''llama-3.1-8b-instant'' =
              Inl (LibraryError ''service unavailable'') \<or>
            (\<exists>a s'. Agent (stub (Some 1)) ''Writer'' ''Draft Y'' ''llama-3.1-8b-instant'' = Inr a \<and>
               Runner_run (stub (Some 1)) (remote ?w1) a
                 (''Draft Y'' @ ''\<newline>\<newline>Additional Context: '' @ ''focus on Q3'') =
                 (Inl (LibraryError ''service unavailable''), s'))"
    by (simp add: dispatch_eval)
  have w1: "run_log ?w1 =
     [((''Researcher'', ''Summarize X''),
       ''Summarize X\<newline>\<newline>Additional Context: focus on Q3'',
       Inr \<lparr>final_output = ''Summarize X\<newline>\<newline>Additional Context: focus on Q3''\<rparr>)]"
    by (simp add: dispatch_eval)
  have ag: "Agent (stub (Some 1)) ''Writer'' ''Draft Y'' ''llama-3.1-8b-instant'' =
              Inr (''Writer'', ''Draft Y'')"
    by (simp add: stub_def)
  have h2f: "fst (create_and_run_crew (stub (Some 1)) (take 1 ?cfgs)
              ''focus on Q3'' ''llama-3.1-8b-instant'' world0) =
            Some ([(''Researcher'', ''Summarize X'')],
                  [\<lparr>final_output = ''Summarize X\<newline>\<newline>Additional Context: focus on Q3''\<rparr>])"
    by (simp add: dispatch_eval)
  have scr0: "screen world0 = []"
    by (simp add: world0_def)
  note r = create_and_run_crew_aborts_on_raise [OF h1 h2 h3 h4 h5]
  from r ag w1 scr0 h2f show ?thesis
    by simp
qed

text \<open>
  C4. Whatever the run's outcome, every remote call the dispatcher makes is for the
  configuration at the same position and carries the prompt: that configuration's
  instructions, then the literal \<^verbatim>\<open>"\n\nAdditional Context: "\<close>, then the shared context.
  With the single configuration \<^verbatim>\<open>{name: "Researcher", instructions: "Summarize X"}\<close>,
  context \<^verbatim>\<open>"focus on Q3"\<close> and a service that echoes its prompt, the one output is
  \<^verbatim>\<open>"Summarize X\n\nAdditional Context: focus on Q3"\<close>.
\<close>

theorem create_and_run_crew_prompt:
  "(\<forall>j < length (run_log (snd (create_and_run_crew ext cfgs hi m w))) - length (run_log w).
      \<exists>ins. (cfgs ! j) ''instructions'' = Some ins \<and>
        fst (snd (run_log (snd (create_and_run_crew ext cfgs hi m w)) ! (length (run_log w) + j))) =
          ins @ ''\<newline>\<newline>Additional Context: '' @ hi) \<and>
   take (length (run_log w)) (run_log (snd (create_and_run_crew ext cfgs hi m w))) = run_log w \<and>
   fst (create_and_run_crew echo_stub [researcher] ''focus on Q3'' model world0) =
     Some ([(''Researcher'', ''Summarize X'')],
           [\<lparr>final_output = ''Summarize X\<newline>\<newline>Additional Context: focus on Q3''\<rparr>])"
proof -
  obtain x w' where run: "crew_loop ext hi m cfgs [] [] w = (x, w')"
    by (cases "crew_loop ext hi m cfgs [] [] w")
  from crew_loop_prompts [OF run] obtain log2 where
    log: "run_log w' = run_log w @ log2" and
    each: "\<forall>j<length log2. \<exists>ins. (cfgs ! j) ''instructions'' = Some ins \<and>
              fst (snd (log2 ! j)) = ins @ ''\<newline>\<newline>Additional Context: '' @ hi"
    by blast
  have w': "snd (create_and_run_crew ext cfgs hi m w) = w'"
    using run by (simp add: create_and_run_crew_def)
  have example: "fst (create_and_run_crew echo_stub [researcher] ''focus on Q3'' model world0) =
     Some ([(''Researcher'', ''Summarize X'')],
           [\<lparr>final_output = ''Summarize X\<newline>\<newline>Additional Context: focus on Q3''\<rparr>])"
    by (simp add: dispatch_eval)
  from log each w' example show ?thesis
    by simp
qed

theorem create_and_run_crew_prompt_witness:
  "0 < length (run_log (snd (create_and_run_crew (stub (Some 0)) [writer] ''focus on Q3''
          ''llama-3.1-8b-instant'' world0))) - length (run_log world0) \<and>
   fst (snd (run_log (snd (create_and_run_crew (stub (Some 0)) [writer] ''focus on Q3''
          ''llama-3.1-8b-instant'' world0)) ! (length (run_log world0) + 0))) =
     ''Draft Y\<newline>\<newline>Additional Context: focus on Q3''"
proof -
  have h: "0 < length (run_log (snd (create_and_run_crew (stub (Some 0)) [writer] ''focus on Q3''
          ''llama-3.1-8b-instant'' world0))) - length (run_log world0)"
    by (simp add: dispatch_eval)
  have ins: "([writer] ! 0) ''instructions'' = Some ''Draft Y''"
    by (simp add: writer_def)
  let ?w' = "snd (create_and_run_crew (stub (Some 0)) [writer] ''focus on Q3''
                    ''llama-3.1-8b-instant'' world0)"
  from create_and_run_crew_prompt [of "stub (Some 0)" "[writer]" "''focus on Q3''"
      "''llama-3.1-8b-instant''" world0 "''llama-3.1-8b-instant''"]
  have "\<forall>j < length (run_log ?w') - length (run_log world0).
      \<exists>ins. ([writer] ! j) ''instructions'' = Some ins \<and>
        fst (snd (run_log ?w' ! (length (run_log world0) + j))) =
          ins @ ''\<newline>\<newline>Additional Context: '' @ ''focus on Q3''"
    by (rule conjunct1)
  with h obtain ins' where
    "([writer] ! 0) ''instructions'' = Some ins'"
    "fst (snd (run_log ?w' ! (length (run_log world0) + 0))) =
       ins' @ ''\<newline>\<newline>Additional Context: '' @ ''focus on Q3''"
    by blast
  with ins h show ?thesis
    by simp
qed

text \<open>
  C6. Against a deterministic stub (the outcome of a remote call is a function \<open>f\<close> of the
  agent and the prompt alone, whatever the service's state), running the dispatcher a
  second time with the same configurations and context, in the world the first run left
  behind, returns the same agents and results as the first run (or fails as the first did).
\<close>

theorem create_and_run_crew_idempotent:
  assumes "\<forall>s a p. fst (Runner_run ext s a p) = f a p"
  shows "fst (create_and_run_crew ext cfgs hi m (snd (create_and_run_crew ext cfgs hi m w))) =
         fst (create_and_run_crew ext cfgs hi m w)"
  unfolding create_and_run_crew_def
  by (rule crew_loop_deterministic [OF assms])

theorem create_and_run_crew_idempotent_witness:
  "(\<forall>s a p. fst (Runner_run echo_stub s a p) = Inr \<lparr>final_output = p\<rparr>) \<and>
   fst (create_and_run_crew echo_stub [researcher, writer] ''focus on Q3'' ''llama-3.1-8b-instant''
         (snd (create_and_run_crew echo_stub [researcher, writer] ''focus on Q3''
                 ''llama-3.1-8b-instant'' world0))) =
     Some ([(''Researcher'', ''Summarize X''), (''Writer'', ''Draft Y'')],
            [\<lparr>final_output = ''Summarize X\<newline>\<newline>Additional Context: focus on Q3''\<rparr>,
             \<lparr>final_output = ''Draft Y\<newline>\<newline>Additional Context: focus on Q3''\<rparr>])"
proof -
  have det: "\<forall>s a p. fst (Runner_run echo_stub s a p) = Inr \<lparr>final_output = p\<rparr>"
    by (simp add: echo_stub_def stub_def)
  have first: "fst (create_and_run_crew echo_stub [researcher, writer] ''focus on Q3''
                 ''llama-3.1-8b-instant'' world0) =
     Some ([(''Researcher'', ''Summarize X''), (''Writer'', ''Draft Y'')],
            [\<lparr>final_output = ''Summarize X\<newline>\<newline>Additional Context: focus on Q3''\<rparr>,
             \<lparr>final_output = ''Draft Y\<newline>\<newline>Additional Context: focus on Q3''\<rparr>])"
    by (simp add: dispatch_eval)
  from create_and_run_crew_idempotent [OF det, of "[researcher, writer]" "''focus on Q3''"
      "''llama-3.1-8b-instant''" world0] first det
  show ?thesis
    by simp
qed

section \<open>Facts about \<^verbatim>\<open>handle_crew_creation\<close>\<close>

lemma detailed_loop_frame:
  assumes "detailed_loop cfgs irs w = (x, w')"
  shows "remote w' = remote w \<and> run_log w' = run_log w \<and> environ w' = environ w \<and>
         download_content w' = download_content w \<and> clock_reads w' = clock_reads w"
  using assms
proof (induction cfgs irs w rule: detailed_loop.induct)
  case (1 cfgs w)
  then show ?case by simp
next
  case (2 cfgs i result rest w)
  show ?case
  proof (cases "config_field cfgs i ''name''")
    case (Inl e)
    with "2.prems" show ?thesis by simp
  next
    case name: (Inr name)
    show ?thesis
    proof (cases "config_field cfgs i ''instructions''")
      case (Inl e)
      with "2.prems" name show ?thesis by (auto simp: st_emit_def)
    next
      case (Inr instructions)
      from "2.IH" [OF name refl refl Inr refl refl refl] "2.prems" name Inr
      show ?thesis by (simp add: st_emit_def)
    qed
  qed
qed

lemma display_results_frame:
  assumes "display_results cfgs results w = (x, w')"
  shows "remote w' = remote w \<and> run_log w' = run_log w \<and> environ w' = environ w \<and>
         download_content w' = download_content w \<and> clock_reads w' = clock_reads w"
proof -
  let ?w2 = "st_emit (Tabs [''Detailed Output'', ''Summary'']) (st_emit (Markdown results_heading) w)"
  obtain y w3 where loop: "detailed_loop cfgs (List.enumerate 0 results) ?w2 = (y, w3)"
    by (cases "detailed_loop cfgs (List.enumerate 0 results) ?w2")
  from detailed_loop_frame [OF loop] have
    w3: "remote w3 = remote w \<and> run_log w3 = run_log w \<and> environ w3 = environ w \<and>
         download_content w3 = download_content w \<and> clock_reads w3 = clock_reads w"
    by (simp add: st_emit_def)
  from assms loop have "w' = w3 \<or> (\<exists>d. w' = st_emit (Dataframe d) w3)"
    by (auto simp: display_results_def Let_def split: option.splits sum.splits)
  with w3 show ?thesis
    by (auto simp: st_emit_def)
qed

lemma build_report_frame:
  assumes "build_report ext cfgs hi results w = (x, w')"
  shows "remote w' = remote w \<and> run_log w' = run_log w \<and> environ w' = environ w \<and>
         download_content w' = download_content w \<and> screen w' = screen w"
  using assms
  by (auto simp: build_report_def now_strftime_def split: sum.splits)

lemma environ_setitem_key:
  "environ_setitem env ''OPENAI_API_KEY'' v =
     (if CHR 0x00 \<in> set v then Inl (ValueError ''embedded null byte'')
      else Inr (env(''OPENAI_API_KEY'' \<mapsto> v)))"
  by (simp add: environ_setitem_def)

text \<open>A credential with a NUL byte: line 19 raises, and only the spinner has been drawn.\<close>

lemma crew_creation_body_rejected:
  assumes "CHR 0x00 \<in> set key"
  shows "crew_creation_body ext cfgs hi key w =
           (Inl (ValueError ''embedded null byte''),
            st_emit (Spinner ''Creating and running your crew...'') w)"
  using assms by (simp add: crew_creation_body_def environ_setitem_key)

text \<open>
  What the body of the \<^verbatim>\<open>try\<close> does to the environment and to the stored report: once
  line 19 has accepted the credential it is in \<^verbatim>\<open>OPENAI_API_KEY\<close> whatever happens next,
  and the report is stored only when the body runs to its end.
\<close>

lemma crew_creation_body_effects:
  assumes "crew_creation_body ext cfgs hi key w = (x, w')"
  shows "environ w' =
           (if CHR 0x00 \<in> set key then environ w
            else (environ w)(''OPENAI_API_KEY'' \<mapsto> key)) \<and>
         (x \<noteq> Inr Completed \<longrightarrow> download_content w' = download_content w) \<and>
         (x = Inr Completed \<longrightarrow> (\<exists>report. download_content w' = Some report))"
proof (cases "CHR 0x00 \<in> set key")
  case True
  from crew_creation_body_rejected [OF True, of ext cfgs hi w] assms True show ?thesis
    by (auto simp: st_emit_def)
next
  case ok: False
  define w1 where
    "w1 = (st_emit (Spinner ''Creating and running your crew...'') w)
            \<lparr>environ := (environ w)(''OPENAI_API_KEY'' \<mapsto> key)\<rparr>"
  have w1: "environ w1 = (environ w)(''OPENAI_API_KEY'' \<mapsto> key)"
           "download_content w1 = download_content w"
    by (simp_all add: w1_def st_emit_def)
  note unfold = crew_creation_body_def environ_setitem_key Let_def w1_def st_emit_def
  show ?thesis
  proof (cases "AsyncOpenAI ext (environ w1) ''https://api.groq.com/openai/v1''")
    case (Inl e)
    with assms w1 ok show ?thesis
      by (auto simp: unfold)
  next
    case client: (Inr client)
    show ?thesis
    proof (cases "OpenAIChatCompletionsModel ext ''llama-3.1-8b-instant'' client")
      case (Inl e)
      with assms w1 ok client show ?thesis
        by (auto simp: unfold)
    next
      case model: (Inr model)
      obtain y w2 where run: "create_and_run_crew ext cfgs hi model w1 = (y, w2)"
        by (cases "create_and_run_crew ext cfgs hi model w1")
      from crew_loop_frame [of ext hi model cfgs "[]" "[]" w1 y w2] run
      have w2: "environ w2 = environ w1" "download_content w2 = download_content w1"
        by (simp_all add: create_and_run_crew_def)
      show ?thesis
      proof (cases y)
        case None
        with assms ok client model run w1 w2 show ?thesis
          by (auto simp: unfold)
      next
        case (Some tr)
        obtain tasklist results where tr: "tr = (tasklist, results)" by (cases tr)
        obtain d w3 where disp: "display_results cfgs results w2 = (d, w3)"
          by (cases "display_results cfgs results w2")
        note f3 = display_results_frame [OF disp]
        obtain b w4 where rep: "build_report ext cfgs hi results w3 = (b, w4)"
          by (cases "build_report ext cfgs hi results w3")
        note f4 = build_report_frame [OF rep]
        from assms ok client model run Some tr disp rep
        have "(x, w') =
                (case d of
                   Some e \<Rightarrow> (Inl e, w3)
                 | None \<Rightarrow>
                     (case b of
                        Inl e \<Rightarrow> (Inl e, w4)
                      | Inr combined_text \<Rightarrow>
                          (Inr Completed, w4\<lparr>download_content := Some combined_text\<rparr>)))"
          by (auto simp: unfold split: option.splits sum.splits)
        with f3 f4 w1 w2 ok show ?thesis
          by (auto split: option.splits sum.splits)
      qed
    qed
  qed
qed

lemma enumerate_nth: "List.enumerate 0 xs = map (\<lambda>i. (i, xs ! i)) [0..<length xs]"
  by (rule nth_equalityI) (simp_all add: nth_enumerate_eq)

lemma config_field_Inr:
  assumes "config_field cfgs i k = Inr v"
  shows "i < length cfgs \<and> (cfgs ! i) k = Some v"
  using assms
  by (auto simp: config_field_def list_getitem_def getitem_def split: if_splits option.splits)

lemma config_entries_loop_Inr:
  assumes "config_entries_loop ics acc = Inr t"
  shows "t = acc @ concat (map (\<lambda>(i, c).
           ''\<newline>Agent '' @ str_nat (i + 1) @ '': '' @ the (c ''name'') @ ''\<newline>'' @
           ''Instructions:\<newline>'' @ the (c ''instructions'') @ ''\<newline>'' @
           replicate 50 (CHR ''-'') @ ''\<newline>'') ics)"
  using assms
proof (induction ics arbitrary: acc)
  case Nil
  then show ?case by simp
next
  case (Cons ic rest)
  obtain i c where ic: "ic = (i, c)" by (cases ic)
  from Cons.prems ic obtain name ins where
    keys: "c ''name'' = Some name" "c ''instructions'' = Some ins" and
    tail: "config_entries_loop rest
             (((acc @ ''\<newline>Agent '' @ str_nat (i + 1) @ '': '' @ name @ ''\<newline>'') @
               ''Instructions:\<newline>'' @ ins @ ''\<newline>'') @
              replicate 50 (CHR ''-'') @ ''\<newline>'') = Inr t"
    by (auto simp: getitem_def Let_def split: option.splits)
  from Cons.IH [OF tail] keys ic show ?case
    by simp
qed

lemma result_entries_loop_Inr:
  assumes "result_entries_loop cfgs irs acc = Inr t"
  shows "t = acc @ concat (map (\<lambda>(i, r).
           ''\<newline>Agent '' @ str_nat (i + 1) @ '': '' @ the ((cfgs ! i) ''name'') @ ''\<newline>'' @
           ''Output:\<newline>'' @ final_output r @ ''\<newline>'' @
           replicate 50 (CHR ''-'') @ ''\<newline>'') irs)"
  using assms
proof (induction irs arbitrary: acc)
  case Nil
  then show ?case by simp
next
  case (Cons ir rest)
  obtain i r where ir: "ir = (i, r)" by (cases ir)
  from Cons.prems ir obtain name where
    name: "config_field cfgs i ''name'' = Inr name" and
    tail: "result_entries_loop cfgs rest
             (((acc @ ''\<newline>Agent '' @ str_nat (i + 1) @ '': '' @ name @ ''\<newline>'') @
               ''Output:\<newline>'' @ final_output r @ ''\<newline>'') @
              replicate 50 (CHR ''-'') @ ''\<newline>'') = Inr t"
    by (auto simp: Let_def split: sum.splits)
  from config_field_Inr [OF name] have "(cfgs ! i) ''name'' = Some name"
    by simp
  with Cons.IH [OF tail] ir show ?case
    by simp
qed

lemma build_report_Inr:
  assumes "build_report ext cfgs hi results w = (Inr rpt, w')"
  shows "rpt =
           part1_heading (strftime_now ext (clock_reads w)) hi @
           concat (map (\<lambda>i.
             ''\<newline>Agent '' @ str_nat (i + 1) @ '': '' @ the ((cfgs ! i) ''name'') @ ''\<newline>'' @
             ''Instructions:\<newline>'' @ the ((cfgs ! i) ''instructions'') @ ''\<newline>'' @
             replicate 50 (CHR ''-'') @ ''\<newline>'') [0..<length cfgs]) @
           part2_heading (strftime_now ext (Suc (clock_reads w))) @
           concat (map (\<lambda>i.
             ''\<newline>Agent '' @ str_nat (i + 1) @ '': '' @ the ((cfgs ! i) ''name'') @ ''\<newline>'' @
             ''Output:\<newline>'' @ final_output (results ! i) @ ''\<newline>'' @
             replicate 50 (CHR ''-'') @ ''\<newline>'') [0..<length results])"
proof -
  from assms obtain t1 where
    c: "config_entries_loop (List.enumerate 0 cfgs)
          (part1_heading (strftime_now ext (clock_reads w)) hi) = Inr t1" and
    r: "result_entries_loop cfgs (List.enumerate 0 results)
          (t1 @ part2_heading (strftime_now ext (Suc (clock_reads w)))) = Inr rpt"
    by (auto simp: build_report_def now_strftime_def split: sum.splits)
  from config_entries_loop_Inr [OF c] result_entries_loop_Inr [OF r] show ?thesis
    by (simp add: enumerate_nth o_def)
qed

lemma crew_creation_body_Completed:
  assumes "crew_creation_body ext cfgs hi key w = (Inr Completed, w')"
  shows "\<exists>model tasklist results w1 w2 w3 w4 rpt.
           run_log w1 = run_log w \<and> clock_reads w1 = clock_reads w \<and>
           create_and_run_crew ext cfgs hi model w1 = (Some (tasklist, results), w2) \<and>
           display_results cfgs results w2 = (None, w3) \<and>
           build_report ext cfgs hi results w3 = (Inr rpt, w4) \<and>
           w' = w4\<lparr>download_content := Some rpt\<rparr>"
proof -
  define w1 where
    "w1 = (st_emit (Spinner ''Creating and running your crew...'') w)
            \<lparr>environ := (environ w)(''OPENAI_API_KEY'' \<mapsto> key)\<rparr>"
  have w1: "run_log w1 = run_log w" "clock_reads w1 = clock_reads w"
    by (simp_all add: w1_def st_emit_def)
  from assms obtain model tasklist results w2 w3 w4 rpt where
    "create_and_run_crew ext cfgs hi model w1 = (Some (tasklist, results), w2)"
    "display_results cfgs results w2 = (None, w3)"
    "build_report ext cfgs hi results w3 = (Inr rpt, w4)"
    "w' = w4\<lparr>download_content := Some rpt\<rparr>"
    by (auto simp: crew_creation_body_def environ_setitem_key Let_def w1_def st_emit_def
             split: sum.splits option.splits prod.splits if_splits)
  with w1 show ?thesis
    by blast
qed

lemmas handle_eval =
  handle_crew_creation_def crew_creation_body_def environ_setitem_key
  display_results_def build_report_def
  now_strftime_def config_field_def list_getitem_def part1_heading_def part2_heading_def
  results_heading_def Let_def digit_char_def str_nat.simps [of 0] str_nat.simps [of 1]
  str_nat.simps [of "Suc 0"] str_nat.simps [of 2] str_nat.simps [of "Suc (Suc 0)"]

section \<open>The caller's guarantees\<close>

text \<open>
  C3. With an absent (\<^verbatim>\<open>None\<close>) or empty credential, \<^verbatim>\<open>handle_crew_creation\<close> leaves by
  the guard of line 13: it shows the message asking for the key and changes nothing else.
  In particular the service's state and the call trace are untouched (no remote call), the
  environment is not written, and the outcome does not depend on the library at all (no
  handle is built, the loop is never entered).
\<close>

theorem handle_crew_creation_missing_credential:
  assumes "groq_api_key = None \<or> groq_api_key = Some []"
  shows "handle_crew_creation ext cfgs hi groq_api_key w =
           (MissingCredential,
            w\<lparr>screen := screen w @ [Error ''Please enter your GROQ API key in the sidebar!'']\<rparr>) \<and>
         run_log (snd (handle_crew_creation ext cfgs hi groq_api_key w)) = run_log w \<and>
         remote (snd (handle_crew_creation ext cfgs hi groq_api_key w)) = remote w \<and>
         environ (snd (handle_crew_creation ext cfgs hi groq_api_key w)) = environ w"
  using assms
  by (auto simp: handle_crew_creation_def st_error_def st_emit_def)

theorem handle_crew_creation_missing_credential_witness:
  "handle_crew_creation echo_stub [researcher, writer] ''focus on Q3'' (Some []) world0 =
     (MissingCredential,
      world0\<lparr>screen := [Error ''Please enter your GROQ API key in the sidebar!'']\<rparr>) \<and>
   run_log (snd (handle_crew_creation echo_stub [researcher, writer] ''focus on Q3'' (Some [])
                   world0)) = []"
proof -
  have h: "Some [] = (None :: string option) \<or> Some [] = Some ([] :: string)"
    by simp
  have w0: "screen world0 = []" "run_log world0 = []"
    by (simp_all add: world0_def)
  from handle_crew_creation_missing_credential [OF h, of echo_stub "[researcher, writer]"
      "''focus on Q3''" world0] w0
  show ?thesis
    by simp
qed




text \<open>
  C10. \<^verbatim>\<open>st.session_state.download_content\<close> is assigned only by line 90, the last
  statement of the \<^verbatim>\<open>try\<close>. Whenever \<^verbatim>\<open>handle_crew_creation\<close> leaves any other way (the
  credential guard, the dispatcher's \<^verbatim>\<open>None\<close>, or an exception caught at line 91, be it
  from the environment refusing the credential at line 19, from building the client or
  model, from the display or from assembling the report), the
  stored report is exactly what it was before; only a run that reaches the end stores a new
  one.
\<close>

theorem handle_crew_creation_download_content:
  assumes "handle_crew_creation ext cfgs hi groq_api_key w = (ex, w')"
  shows "(ex \<noteq> Completed \<longrightarrow> download_content w' = download_content w) \<and>
         (ex = Completed \<longrightarrow> (\<exists>report. download_content w' = Some report)) \<and>
         (\<not> truthy groq_api_key \<longrightarrow> ex = MissingCredential) \<and>
         (\<forall>key. groq_api_key = Some key \<and> CHR 0x00 \<in> set key \<longrightarrow>
            ex = Caught (ValueError ''embedded null byte''))"
proof (cases "truthy groq_api_key")
  case False
  with assms show ?thesis
    by (auto simp: handle_crew_creation_def st_error_def st_emit_def)
next
  case True
  define key where "key = (case groq_api_key of Some key \<Rightarrow> key | None \<Rightarrow> [])"
  from True have some: "groq_api_key = Some key"
    by (cases groq_api_key) (simp_all add: key_def)
  obtain x w1 where body: "crew_creation_body ext cfgs hi key w = (x, w1)"
    by (cases "crew_creation_body ext cfgs hi key w")
  note eff = crew_creation_body_effects [OF body]
  have nul: "ex = Caught (ValueError ''embedded null byte'')" if "CHR 0x00 \<in> set key"
    using crew_creation_body_rejected [OF that, of ext cfgs hi w] assms True some
    by (auto simp: handle_crew_creation_def)
  show ?thesis
  proof (cases x)
    case (Inl e)
    with assms True body have "ex = Caught e"
      "w' = st_error ''Please check your GROQ API key and try again.''
              (st_error (''An error occurred while creating the crew: '' @ str_exn e) w1)"
      by (auto simp: handle_crew_creation_def key_def)
    with eff Inl True some nul show ?thesis
      by (simp add: st_error_def st_emit_def)
  next
    case (Inr ex')
    with assms True body have "ex = ex'" "w' = w1"
      by (auto simp: handle_crew_creation_def key_def)
    with eff Inr True some nul show ?thesis
      by simp
  qed
qed

theorem handle_crew_creation_download_content_witness:
  "fst (handle_crew_creation (stub (Some 1)) [researcher] ''focus on Q3'' (Some ''gsk_secret'')
          (snd (handle_crew_creation echo_stub [researcher] ''focus on Q3'' (Some ''gsk_secret'')
                  world0))) = DispatchFailed \<and>
   download_content
     (snd (handle_crew_creation (stub (Some 1)) [researcher] ''focus on Q3'' (Some ''gsk_secret'')
             (snd (handle_crew_creation echo_stub [researcher] ''focus on Q3''
                     (Some ''gsk_secret'') world0)))) =
   download_content
     (snd (handle_crew_creation echo_stub [researcher] ''focus on Q3'' (Some ''gsk_secret'')
             world0)) \<and>
   download_content
     (snd (handle_crew_creation echo_stub [researcher] ''focus on Q3'' (Some ''gsk_secret'')
             world0)) \<noteq> None \<and>
   fst (handle_crew_creation echo_stub [researcher] ''focus on Q3''
          (Some [CHR ''g'', CHR ''s'', CHR ''k'', CHR 0x00, CHR ''x''])
          (snd (handle_crew_creation echo_stub [researcher] ''focus on Q3'' (Some ''gsk_secret'')
                  world0))) = Caught (ValueError ''embedded null byte'') \<and>
   download_content
     (snd (handle_crew_creation echo_stub [researcher] ''focus on Q3''
             (Some [CHR ''g'', CHR ''s'', CHR ''k'', CHR 0x00, CHR ''x''])
             (snd (handle_crew_creation echo_stub [researcher] ''focus on Q3''
                     (Some ''gsk_secret'') world0)))) =
   download_content
     (snd (handle_crew_creation echo_stub [researcher] ''focus on Q3'' (Some ''gsk_secret'')
             world0))"
proof -
  let ?w1 = "snd (handle_crew_creation echo_stub [researcher] ''focus on Q3''
                    (Some ''gsk_secret'') world0)"
  let ?third = "handle_crew_creation echo_stub [researcher] ''focus on Q3''
                  (Some [CHR ''g'', CHR ''s'', CHR ''k'', CHR 0x00, CHR ''x'']) ?w1"
  have third: "?third = (Caught (ValueError ''embedded null byte''), snd ?third)"
    by (simp add: handle_crew_creation_def crew_creation_body_def environ_setitem_key)
  have rejected: "fst ?third = Caught (ValueError ''embedded null byte'')"
    by (simp add: handle_crew_creation_def crew_creation_body_def environ_setitem_key)
  let ?second = "handle_crew_creation (stub (Some 1)) [researcher] ''focus on Q3''
                   (Some ''gsk_secret'') ?w1"
  have first: "handle_crew_creation echo_stub [researcher] ''focus on Q3''
                 (Some ''gsk_secret'') world0 = (Completed, ?w1)"
    by (simp add: handle_eval dispatch_eval)
  have second: "?second = (DispatchFailed, snd ?second)"
    by (simp add: handle_eval dispatch_eval)
  have failed: "fst ?second = DispatchFailed"
    by (simp add: handle_eval dispatch_eval)
  from handle_crew_creation_download_content [OF first]
       handle_crew_creation_download_content [OF second] failed
       handle_crew_creation_download_content [OF third] rejected
  show ?thesis
    by auto
qed

text \<open>
  C5. After a completed run the stored report is, byte for byte: the title line and a rule
  of 50 \<^verbatim>\<open>=\<close>; the heading \<^verbatim>\<open>PART 1: CREW CONFIGURATION\<close> and a rule of 50 \<^verbatim>\<open>=\<close>, the
  first timestamp and the shared context; then, for every agent in input order, its number,
  name and instructions verbatim followed by a line of 50 \<^verbatim>\<open>-\<close>; then a rule of 50
  \<^verbatim>\<open>=\<close>, the heading \<^verbatim>\<open>PART 2: CREW RESULTS\<close>, a rule of 50 \<^verbatim>\<open>=\<close> and the second
  timestamp; then, for every agent in input order, its number, name and output verbatim
  followed by a line of 50 \<^verbatim>\<open>-\<close>. The outputs are those the remote calls of this run
  returned, in order.
\<close>

theorem handle_crew_creation_report:
  assumes "handle_crew_creation ext cfgs hi groq_api_key w = (Completed, w')"
  shows "\<exists>results.
     length results = length cfgs \<and>
     (\<forall>i<length cfgs.
        (cfgs ! i) ''name'' \<noteq> None \<and> (cfgs ! i) ''instructions'' \<noteq> None \<and>
        snd (snd (run_log w' ! (length (run_log w) + i))) = Inr (results ! i)) \<and>
     download_content w' = Some (
       ''AUTONOMOUS CREW BUILDER - COMPLETE REPORT\<newline>'' @
       replicate 50 (CHR ''='') @ ''\<newline>\<newline>'' @
       ''PART 1: CREW CONFIGURATION\<newline>'' @
       replicate 50 (CHR ''='') @ ''\<newline>'' @
       ''Timestamp: '' @ strftime_now ext (clock_reads w) @ ''\<newline>\<newline>'' @
       ''Additional Context:\<newline>'' @ hi @ ''\<newline>\<newline>'' @
       ''Agent Configurations:\<newline>'' @
       concat (map (\<lambda>i.
         ''\<newline>Agent '' @ str_nat (i + 1) @ '': '' @ the ((cfgs ! i) ''name'') @ ''\<newline>'' @
         ''Instructions:\<newline>'' @ the ((cfgs ! i) ''instructions'') @ ''\<newline>'' @
         replicate 50 (CHR ''-'') @ ''\<newline>'') [0..<length cfgs]) @
       ''\<newline>'' @ replicate 50 (CHR ''='') @ ''\<newline>'' @
       ''PART 2: CREW RESULTS\<newline>'' @
       replicate 50 (CHR ''='') @ ''\<newline>'' @
       ''Timestamp: '' @ strftime_now ext (Suc (clock_reads w)) @ ''\<newline>\<newline>'' @
       ''Results by Agent:\<newline>'' @
       concat (map (\<lambda>i.
         ''\<newline>Agent '' @ str_nat (i + 1) @ '': '' @ the ((cfgs ! i) ''name'') @ ''\<newline>'' @
         ''Output:\<newline>'' @ final_output (results ! i) @ ''\<newline>'' @
         replicate 50 (CHR ''-'') @ ''\<newline>'') [0..<length cfgs]))"
proof -
  define key where "key = (case groq_api_key of Some key \<Rightarrow> key | None \<Rightarrow> [])"
  from assms have body: "crew_creation_body ext cfgs hi key w = (Inr Completed, w')"
    by (auto simp: handle_crew_creation_def key_def split: if_splits prod.splits sum.splits)
  from crew_creation_body_Completed [OF body]
  obtain model tasklist results w1 w2 w3 w4 rpt where
    w1: "run_log w1 = run_log w" "clock_reads w1 = clock_reads w" and
    run: "create_and_run_crew ext cfgs hi model w1 = (Some (tasklist, results), w2)" and
    disp: "display_results cfgs results w2 = (None, w3)" and
    rep: "build_report ext cfgs hi results w3 = (Inr rpt, w4)" and
    w': "w' = w4\<lparr>download_content := Some rpt\<rparr>"
    by blast
  from run have loop: "crew_loop ext hi model cfgs [] [] w1 = (Some (tasklist, results), w2)"
    by (simp add: create_and_run_crew_def)
  from crew_loop_Some [OF loop] obtain log2 where
    log: "run_log w2 = run_log w1 @ log2" and
    lens: "length results = length cfgs" "length log2 = length cfgs" and
    each: "\<forall>i<length cfgs. \<exists>n ins.
              (cfgs ! i) ''name'' = Some n \<and> (cfgs ! i) ''instructions'' = Some ins \<and>
              Agent ext n ins model = Inr (tasklist ! i) \<and>
              log2 ! i = (tasklist ! i, ins @ ''\<newline>\<newline>Additional Context: '' @ hi, Inr (results ! i))"
    by auto
  from crew_loop_frame [OF loop] have clock2: "clock_reads w2 = clock_reads w1"
    by simp
  note f3 = display_results_frame [OF disp]
  note f4 = build_report_frame [OF rep]
  from f3 f4 w' log w1 have log': "run_log w' = run_log w @ log2"
    by simp
  from f3 clock2 w1 have clock3: "clock_reads w3 = clock_reads w"
    by simp
  have entries: "\<forall>i<length cfgs.
        (cfgs ! i) ''name'' \<noteq> None \<and> (cfgs ! i) ''instructions'' \<noteq> None \<and>
        snd (snd (run_log w' ! (length (run_log w) + i))) = Inr (results ! i)"
  proof (intro allI impI)
    fix i assume i: "i < length cfgs"
    with each obtain n ins where
      "(cfgs ! i) ''name'' = Some n" "(cfgs ! i) ''instructions'' = Some ins"
      "log2 ! i = (tasklist ! i, ins @ ''\<newline>\<newline>Additional Context: '' @ hi, Inr (results ! i))"
      by blast
    with log' show "(cfgs ! i) ''name'' \<noteq> None \<and> (cfgs ! i) ''instructions'' \<noteq> None \<and>
        snd (snd (run_log w' ! (length (run_log w) + i))) = Inr (results ! i)"
      by simp
  qed
  from build_report_Inr [OF rep] clock3 lens w'
  have stored: "download_content w' = Some (
       part1_heading (strftime_now ext (clock_reads w)) hi @
       concat (map (\<lambda>i.
         ''\<newline>Agent '' @ str_nat (i + 1) @ '': '' @ the ((cfgs ! i) ''name'') @ ''\<newline>'' @
         ''Instructions:\<newline>'' @ the ((cfgs ! i) ''instructions'') @ ''\<newline>'' @
         replicate 50 (CHR ''-'') @ ''\<newline>'') [0..<length cfgs]) @
       part2_heading (strftime_now ext (Suc (clock_reads w))) @
       concat (map (\<lambda>i.
         ''\<newline>Agent '' @ str_nat (i + 1) @ '': '' @ the ((cfgs ! i) ''name'') @ ''\<newline>'' @
         ''Output:\<newline>'' @ final_output (results ! i) @ ''\<newline>'' @
         replicate 50 (CHR ''-'') @ ''\<newline>'') [0..<length cfgs]))"
    by simp
  show ?thesis
    apply (rule exI [of _ results])
    using lens(1) entries stored
    by (simp add: part1_heading_def part2_heading_def)
qed

theorem handle_crew_creation_report_witness:
  "fst (handle_crew_creation echo_stub [researcher] ''focus on Q3'' (Some ''gsk_secret'') world0) =
     Completed \<and>
   download_content
     (snd (handle_crew_creation echo_stub [researcher] ''focus on Q3'' (Some ''gsk_secret'')
             world0)) = Some (
       ''AUTONOMOUS CREW BUILDER - COMPLETE REPORT\<newline>'' @
       replicate 50 (CHR ''='') @ ''\<newline>\<newline>'' @
       ''PART 1: CREW CONFIGURATION\<newline>'' @
       replicate 50 (CHR ''='') @ ''\<newline>'' @
       ''Timestamp: 2025-01-01 00:00:00\<newline>\<newline>'' @
       ''Additional Context:\<newline>focus on Q3\<newline>\<newline>'' @
       ''Agent Configurations:\<newline>'' @
       ''\<newline>Agent 1: Researcher\<newline>'' @
       ''Instructions:\<newline>Summarize X\<newline>'' @
       replicate 50 (CHR ''-'') @ ''\<newline>'' @
       ''\<newline>'' @ replicate 50 (CHR ''='') @ ''\<newline>'' @
       ''PART 2: CREW RESULTS\<newline>'' @
       replicate 50 (CHR ''='') @ ''\<newline>'' @
       ''Timestamp: 2025-01-01 00:00:01\<newline>\<newline>'' @
       ''Results by Agent:\<newline>'' @
       ''\<newline>Agent 1: Researcher\<newline>'' @
       ''Output:\<newline>Summarize X\<newline>\<newline>Additional Context: focus on Q3\<newline>'' @
       replicate 50 (CHR ''-'') @ ''\<newline>'')"
proof -
  let ?w' = "snd (handle_crew_creation echo_stub [researcher] ''focus on Q3''
                    (Some ''gsk_secret'') world0)"
  have run: "handle_crew_creation echo_stub [researcher] ''focus on Q3''
               (Some ''gsk_secret'') world0 = (Completed, ?w')"
    by (simp add: handle_eval dispatch_eval)
  have log: "snd (snd (run_log ?w' ! 0)) =
               Inr \<lparr>final_output = ''Summarize X\<newline>\<newline>Additional Context: focus on Q3''\<rparr>"
    by (simp add: handle_eval dispatch_eval)
  have w0: "run_log world0 = []" "clock_reads world0 = 0"
    by (simp_all add: world0_def)
  have ts: "strftime_now echo_stub 0 = ''2025-01-01 00:00:00''"
           "strftime_now echo_stub (Suc 0) = ''2025-01-01 00:00:01''"
    by (simp_all add: echo_stub_def stub_def handle_eval)
  from handle_crew_creation_report [OF run] obtain results where
    entries: "\<forall>i<length [researcher].
        snd (snd (run_log ?w' ! (length (run_log world0) + i))) = Inr (results ! i)" and
    stored: "download_content ?w' = Some (
       ''AUTONOMOUS CREW BUILDER - COMPLETE REPORT\<newline>'' @
       replicate 50 (CHR ''='') @ ''\<newline>\<newline>'' @
       ''PART 1: CREW CONFIGURATION\<newline>'' @
       replicate 50 (CHR ''='') @ ''\<newline>'' @
       ''Timestamp: '' @ strftime_now echo_stub (clock_reads world0) @ ''\<newline>\<newline>'' @
       ''Additional Context:\<newline>'' @ ''focus on Q3'' @ ''\<newline>\<newline>'' @
       ''Agent Configurations:\<newline>'' @
       concat (map (\<lambda>i.
         ''\<newline>Agent '' @ str_nat (i + 1) @ '': '' @ the (([researcher] ! i) ''name'') @ ''\<newline>'' @
         ''Instructions:\<newline>'' @ the (([researcher] ! i) ''instructions'') @ ''\<newline>'' @
         replicate 50 (CHR ''-'') @ ''\<newline>'') [0..<length [researcher]]) @
       ''\<newline>'' @ replicate 50 (CHR ''='') @ ''\<newline>'' @
       ''PART 2: CREW RESULTS\<newline>'' @
       replicate 50 (CHR ''='') @ ''\<newline>'' @
       ''Timestamp: '' @ strftime_now echo_stub (Suc (clock_reads world0)) @ ''\<newline>\<newline>'' @
       ''Results by Agent:\<newline>'' @
       concat (map (\<lambda>i.
         ''\<newline>Agent '' @ str_nat (i + 1) @ '': '' @ the (([researcher] ! i) ''name'') @ ''\<newline>'' @
         ''Output:\<newline>'' @ final_output (results ! i) @ ''\<newline>'' @
         replicate 50 (CHR ''-'') @ ''\<newline>'') [0..<length [researcher]]))"
    by blast
  from entries w0 have "snd (snd (run_log ?w' ! 0)) = Inr (results ! 0)"
    by simp
  with log have "results ! 0 =
      \<lparr>final_output = ''Summarize X\<newline>\<newline>Additional Context: focus on Q3''\<rparr>"
    by simp
  then have out: "final_output (results ! 0) =
      ''Summarize X\<newline>\<newline>Additional Context: focus on Q3''"
    by simp
  have fst_run: "fst (handle_crew_creation echo_stub [researcher] ''focus on Q3''
                        (Some ''gsk_secret'') world0) = Completed"
    by (simp add: handle_eval dispatch_eval)
  from stored out w0 ts fst_run show ?thesis
    by (simp add: researcher_def handle_eval)
qed

section \<open>The collector\<close>

lemma collect_loop_eq:
  "collect_loop ss is acc =
     acc @ map (\<lambda>i. [''name'' \<mapsto> st_text_input ss (''name_'' @ str_nat i),
                      ''instructions'' \<mapsto> st_text_area ss (''instructions_'' @ str_nat i)]) is"
  by (induction "is" arbitrary: acc) (simp_all add: Let_def)

lemma st_number_input_bounds:
  assumes "min_value \<le> val" "val \<le> max_value"
  shows "min_value \<le> st_number_input ss label min_value max_value val \<and>
         st_number_input ss label min_value max_value val \<le> max_value"
  using assms by (simp add: st_number_input_def split: option.splits)

lemma collector_configs:
  "fst (collector ss) =
     map (\<lambda>i. [''name'' \<mapsto> st_text_input ss (''name_'' @ str_nat i),
                ''instructions'' \<mapsto> st_text_area ss (''instructions_'' @ str_nat i)])
       [0..<nat (st_number_input ss ''Number of Agents'' 1 10 1)]"
  by (simp add: collector_def Let_def collect_loop_eq)

lemma crew_loop_succeeds:
  assumes keys: "\<forall>c\<in>set cfgs. c ''name'' \<noteq> None \<and> c ''instructions'' \<noteq> None"
    and ctor: "\<forall>n ins. \<exists>a. Agent ext n ins m = Inr a"
    and call: "\<forall>s a p. \<exists>r s'. Runner_run ext s a p = (Inr r, s')"
  shows "\<exists>agents' results' w'.
           crew_loop ext hi m cfgs agents results w = (Some (agents', results'), w')"
  using keys
proof (induction cfgs arbitrary: agents results w)
  case Nil
  show ?case by simp
next
  case (Cons c rest)
  from Cons.prems obtain n ins where
    c: "c ''name'' = Some n" "c ''instructions'' = Some ins"
    by auto
  from ctor obtain a where a: "Agent ext n ins m = Inr a"
    by blast
  from call obtain r s' where
    r: "Runner_run ext (remote w) a (ins @ ''\<newline>\<newline>Additional Context: '' @ hi) = (Inr r, s')"
    by blast
  from c a r have step: "run_config ext hi m c w =
      (Inr (a, r), w\<lparr>remote := s',
         run_log := run_log w @ [(a, ins @ ''\<newline>\<newline>Additional Context: '' @ hi, Inr r)]\<rparr>)"
    by (simp add: run_config_def getitem_def runner_run_def)
  from Cons.prems have "\<forall>c\<in>set rest. c ''name'' \<noteq> None \<and> c ''instructions'' \<noteq> None"
    by simp
  from Cons.IH [OF this] step show ?case
    by simp
qed

text \<open>
  C7. The list the collector builds has as many entries as the number widget returns, and
  that number lies between the widget's bounds 1 and 10. The script calls
  \<^verbatim>\<open>handle_crew_creation\<close>, and through it the dispatcher, only with that list (when the
  button was clicked), so no list of another length is dispatched.
\<close>

theorem collector_length_bounds:
  "1 \<le> length (fst (collector ss)) \<and> length (fst (collector ss)) \<le> 10 \<and>
   int (length (fst (collector ss))) = st_number_input ss ''Number of Agents'' 1 10 1 \<and>
   (button_clicked ss \<longrightarrow>
      script ext ss w =
        snd (handle_crew_creation ext (fst (collector ss)) (fst (snd (collector ss)))
               (Some (snd (snd (collector ss)))) w)) \<and>
   (\<not> button_clicked ss \<longrightarrow> script ext ss w = w)"
proof -
  have "(1::int) \<le> 1" "(1::int) \<le> 10"
    by simp_all
  from st_number_input_bounds [OF this, of ss "''Number of Agents''"]
  have "1 \<le> st_number_input ss ''Number of Agents'' 1 10 1"
       "st_number_input ss ''Number of Agents'' 1 10 1 \<le> 10"
    by simp_all
  then have "1 \<le> length (fst (collector ss))" "length (fst (collector ss)) \<le> 10"
    "int (length (fst (collector ss))) = st_number_input ss ''Number of Agents'' 1 10 1"
    by (simp_all add: collector_configs)
  moreover have "button_clicked ss \<longrightarrow>
      script ext ss w =
        snd (handle_crew_creation ext (fst (collector ss)) (fst (snd (collector ss)))
               (Some (snd (snd (collector ss)))) w)"
    by (simp add: script_def split: prod.splits)
  moreover have "\<not> button_clicked ss \<longrightarrow> script ext ss w = w"
    by (simp add: script_def split: prod.splits)
  ultimately show ?thesis
    by blast
qed

theorem collector_length_bounds_witness:
  "button_clicked demo_session \<and>
   length (fst (collector (demo_session\<lparr>number_widgets := [''Number of Agents'' \<mapsto> 11]\<rparr>))) = 1 \<and>
   length (fst (collector demo_session)) = 2 \<and>
   script echo_stub demo_session world0 =
     snd (handle_crew_creation echo_stub (fst (collector demo_session))
            (fst (snd (collector demo_session))) (Some (snd (snd (collector demo_session))))
            world0)"
proof -
  have clicked: "button_clicked demo_session"
    by (simp add: demo_session_def)
  have n: "st_number_input demo_session ''Number of Agents'' 1 10 1 = 2"
    by (simp add: demo_session_def st_number_input_def)
  have n': "st_number_input (demo_session\<lparr>number_widgets := [''Number of Agents'' \<mapsto> 11]\<rparr>)
              ''Number of Agents'' 1 10 1 = 1"
    by (simp add: st_number_input_def)
  from collector_length_bounds [of demo_session echo_stub world0]
       collector_length_bounds
         [of "demo_session\<lparr>number_widgets := [''Number of Agents'' \<mapsto> 11]\<rparr>" echo_stub world0]
       clicked n n'
  show ?thesis
    by simp
qed

text \<open>
  C8. The collector is total: whatever is on the page it returns a list with one
  configuration per requested agent. Each configuration has both keys; a name or
  instructions widget that was never filled in contributes the empty string, and the
  entry is in the list all the same. The dispatcher does not inspect the fields: if the
  library neither refuses an agent nor fails a call, every collected entry, empty or
  duplicated, gets its agent built from exactly its name and instructions and its remote
  call, and the run succeeds with one result per entry.
\<close>

theorem collector_accepts_empty_fields:
  "length (fst (collector ss)) = nat (st_number_input ss ''Number of Agents'' 1 10 1) \<and>
   (\<forall>i<length (fst (collector ss)).
      (fst (collector ss) ! i) ''name'' =
        Some (case text_widgets ss (''name_'' @ str_nat i) of None \<Rightarrow> [] | Some v \<Rightarrow> v) \<and>
      (fst (collector ss) ! i) ''instructions'' =
        Some (case text_widgets ss (''instructions_'' @ str_nat i) of None \<Rightarrow> [] | Some v \<Rightarrow> v)) \<and>
   ((\<forall>n ins. \<exists>a. Agent ext n ins m = Inr a) \<and>
    (\<forall>s a p. \<exists>r s'. Runner_run ext s a p = (Inr r, s')) \<longrightarrow>
    (\<exists>agents results w'.
       create_and_run_crew ext (fst (collector ss)) hi m w = (Some (agents, results), w') \<and>
       length agents = length (fst (collector ss)) \<and>
       length results = length (fst (collector ss)) \<and>
       length (run_log w') = length (run_log w) + length (fst (collector ss)) \<and>
       (\<forall>i<length (fst (collector ss)).
          Agent ext (st_text_input ss (''name_'' @ str_nat i))
            (st_text_area ss (''instructions_'' @ str_nat i)) m = Inr (agents ! i) \<and>
          run_log w' ! (length (run_log w) + i) =
            (agents ! i,
             st_text_area ss (''instructions_'' @ str_nat i) @
               ''\<newline>\<newline>Additional Context: '' @ hi,
             Inr (results ! i)))))"
proof (intro conjI impI)
  let ?cfgs = "fst (collector ss)"
  show len: "length ?cfgs = nat (st_number_input ss ''Number of Agents'' 1 10 1)"
    by (simp add: collector_configs)
  have fields: "\<forall>i<length ?cfgs.
      (?cfgs ! i) ''name'' = Some (st_text_input ss (''name_'' @ str_nat i)) \<and>
      (?cfgs ! i) ''instructions'' = Some (st_text_area ss (''instructions_'' @ str_nat i))"
    by (simp add: collector_configs)
  then show "\<forall>i<length ?cfgs.
      (?cfgs ! i) ''name'' =
        Some (case text_widgets ss (''name_'' @ str_nat i) of None \<Rightarrow> [] | Some v \<Rightarrow> v) \<and>
      (?cfgs ! i) ''instructions'' =
        Some (case text_widgets ss (''instructions_'' @ str_nat i) of None \<Rightarrow> [] | Some v \<Rightarrow> v)"
    by (simp add: st_text_input_def st_text_area_def)
  assume lib: "(\<forall>n ins. \<exists>a. Agent ext n ins m = Inr a) \<and>
               (\<forall>s a p. \<exists>r s'. Runner_run ext s a p = (Inr r, s'))"
  have keys: "\<forall>c\<in>set ?cfgs. c ''name'' \<noteq> None \<and> c ''instructions'' \<noteq> None"
    by (auto simp: collector_configs)
  from lib have ctor: "\<forall>n ins. \<exists>a. Agent ext n ins m = Inr a"
    and call: "\<forall>s a p. \<exists>r s'. Runner_run ext s a p = (Inr r, s')"
    by blast+
  from crew_loop_succeeds [OF keys ctor call, of hi "[]" "[]" w]
  obtain agents results w' where
    run: "crew_loop ext hi m ?cfgs [] [] w = (Some (agents, results), w')"
    by blast
  from crew_loop_Some [OF run] obtain log2 where
    log: "run_log w' = run_log w @ log2" and
    lens: "length agents = length ?cfgs" "length results = length ?cfgs"
          "length log2 = length ?cfgs" and
    each: "\<forall>i<length ?cfgs. \<exists>n ins.
              (?cfgs ! i) ''name'' = Some n \<and> (?cfgs ! i) ''instructions'' = Some ins \<and>
              Agent ext n ins m = Inr (agents ! i) \<and>
              log2 ! i = (agents ! i, ins @ ''\<newline>\<newline>Additional Context: '' @ hi, Inr (results ! i))"
    by auto
  have calls: "\<forall>i<length ?cfgs.
          Agent ext (st_text_input ss (''name_'' @ str_nat i))
            (st_text_area ss (''instructions_'' @ str_nat i)) m = Inr (agents ! i) \<and>
          run_log w' ! (length (run_log w) + i) =
            (agents ! i,
             st_text_area ss (''instructions_'' @ str_nat i) @
               ''\<newline>\<newline>Additional Context: '' @ hi,
             Inr (results ! i))"
  proof (intro allI impI)
    fix i assume i: "i < length ?cfgs"
    with each obtain n ins where
      e: "(?cfgs ! i) ''name'' = Some n" "(?cfgs ! i) ''instructions'' = Some ins"
         "Agent ext n ins m = Inr (agents ! i)"
         "log2 ! i = (agents ! i, ins @ ''\<newline>\<newline>Additional Context: '' @ hi, Inr (results ! i))"
      by blast
    from fields i e(1,2) have
      "n = st_text_input ss (''name_'' @ str_nat i)"
      "ins = st_text_area ss (''instructions_'' @ str_nat i)"
      by simp_all
    with e(3,4) log show
      "Agent ext (st_text_input ss (''name_'' @ str_nat i))
            (st_text_area ss (''instructions_'' @ str_nat i)) m = Inr (agents ! i) \<and>
          run_log w' ! (length (run_log w) + i) =
            (agents ! i,
             st_text_area ss (''instructions_'' @ str_nat i) @
               ''\<newline>\<newline>Additional Context: '' @ hi,
             Inr (results ! i))"
      by simp
  qed
  show "\<exists>agents results w'.
       create_and_run_crew ext ?cfgs hi m w = (Some (agents, results), w') \<and>
       length agents = length ?cfgs \<and>
       length results = length ?cfgs \<and>
       length (run_log w') = length (run_log w) + length ?cfgs \<and>
       (\<forall>i<length ?cfgs.
          Agent ext (st_text_input ss (''name_'' @ str_nat i))
            (st_text_area ss (''instructions_'' @ str_nat i)) m = Inr (agents ! i) \<and>
          run_log w' ! (length (run_log w) + i) =
            (agents ! i,
             st_text_area ss (''instructions_'' @ str_nat i) @
               ''\<newline>\<newline>Additional Context: '' @ hi,
             Inr (results ! i)))"
    apply (rule exI [of _ agents], rule exI [of _ results], rule exI [of _ w'])
    using run lens log calls by (simp add: create_and_run_crew_def)
qed

theorem collector_accepts_empty_fields_witness:
  "1 < length (fst (collector demo_session)) \<and>
   (fst (collector demo_session) ! 1) ''name'' = Some [] \<and>
   (fst (collector demo_session) ! 1) ''instructions'' = Some [] \<and>
   (\<exists>agents results w'.
      create_and_run_crew echo_stub (fst (collector demo_session)) ''focus on Q3''
        ''llama-3.1-8b-instant'' world0 = (Some (agents, results), w') \<and>
      length results = 2 \<and>
      run_log w' ! 1 =
        (agents ! 1, ''\<newline>\<newline>Additional Context: focus on Q3'', Inr (results ! 1)))"
proof -
  let ?cfgs = "fst (collector demo_session)"
  note t = collector_accepts_empty_fields
    [of demo_session echo_stub "''llama-3.1-8b-instant''" "''focus on Q3''" world0]
  have n: "st_number_input demo_session ''Number of Agents'' 1 10 1 = 2"
    by (simp add: demo_session_def st_number_input_def)
  from t n have len: "length ?cfgs = 2"
    by simp
  have untouched:
    "text_widgets demo_session (''name_'' @ str_nat 1) = None"
    "text_widgets demo_session (''instructions_'' @ str_nat 1) = None"
    by (simp_all add: demo_session_def str_nat.simps [of 1] str_nat.simps [of "Suc 0"]
          digit_char_def)
  from t have "\<forall>i<length ?cfgs.
      (?cfgs ! i) ''name'' =
        Some (case text_widgets demo_session (''name_'' @ str_nat i) of
                None \<Rightarrow> [] | Some v \<Rightarrow> v) \<and>
      (?cfgs ! i) ''instructions'' =
        Some (case text_widgets demo_session (''instructions_'' @ str_nat i) of
                None \<Rightarrow> [] | Some v \<Rightarrow> v)"
    by blast
  with len untouched have empty:
    "(?cfgs ! 1) ''name'' = Some []" "(?cfgs ! 1) ''instructions'' = Some []"
    by simp_all
  have lib: "(\<forall>n ins. \<exists>a. Agent echo_stub n ins ''llama-3.1-8b-instant'' = Inr a) \<and>
             (\<forall>s a p. \<exists>r s'. Runner_run echo_stub s a p = (Inr r, s'))"
    by (simp add: echo_stub_def stub_def)
  with t obtain agents results w' where
    run: "create_and_run_crew echo_stub ?cfgs ''focus on Q3'' ''llama-3.1-8b-instant'' world0 =
            (Some (agents, results), w')" and
    lens: "length results = length ?cfgs" and
    calls: "\<forall>i<length ?cfgs.
          Agent echo_stub (st_text_input demo_session (''name_'' @ str_nat i))
            (st_text_area demo_session (''instructions_'' @ str_nat i))
            ''llama-3.1-8b-instant'' = Inr (agents ! i) \<and>
          run_log w' ! (length (run_log world0) + i) =
            (agents ! i,
             st_text_area demo_session (''instructions_'' @ str_nat i) @
               ''\<newline>\<newline>Additional Context: '' @ ''focus on Q3'',
             Inr (results ! i))"
    by blast
  from len have "1 < length ?cfgs"
    by simp
  with calls have "run_log w' ! (length (run_log world0) + 1) =
            (agents ! 1,
             st_text_area demo_session (''instructions_'' @ str_nat 1) @
               ''\<newline>\<newline>Additional Context: '' @ ''focus on Q3'',
             Inr (results ! 1))"
    by blast
  with untouched have call1: "run_log w' ! 1 =
        (agents ! 1, ''\<newline>\<newline>Additional Context: focus on Q3'', Inr (results ! 1))"
    by (simp add: st_text_area_def world0_def)
  show ?thesis
    using len empty run lens call1 by auto
qed

end
